theory Spec2Isabelle
  imports Main
begin

section \<open>Padlock: values, configuration and collaborators\<close>

text \<open>
  A shallow embedding of \<^verbatim>\<open>src/lib/padlock/padlock.ts\<close> and of the provider
  descriptors. Every \<^verbatim>\<open>throw\<close> and every SvelteKit \<^verbatim>\<open>error(status, message)\<close>
  is the left branch of a sum; the cookie jar and the calls made to collaborators
  (provider capabilities, hooks, console) are an explicit state that each handler
  returns updated.

  Strings are tested the way JavaScript tests them: \<^verbatim>\<open>!s\<close> holds for a missing
  value and for the empty string. The operator \<^verbatim>\<open>in\<close> is read on the own keys of
  an object; names inherited from \<^verbatim>\<open>Object.prototype\<close> are outside the model.
\<close>

datatype thrown =
    HttpError nat string
  | JsError string
  | StatusObject nat string

text \<open>
  \<open>HttpError\<close> is what \<^verbatim>\<open>error(status, message)\<close> throws, \<open>JsError\<close> an
  \<^verbatim>\<open>Error\<close>, \<^verbatim>\<open>TypeError\<close> or \<^verbatim>\<open>SyntaxError\<close> with its message (no
  \<^verbatim>\<open>status\<close> property), \<open>StatusObject\<close> any other thrown object that has a
  \<^verbatim>\<open>status\<close> property.
\<close>

fun carries_status :: "thrown \<Rightarrow> bool" where
  "carries_status (HttpError s m) = True"
| "carries_status (JsError m) = False"
| "carries_status (StatusObject s m) = True"

definition truthy :: "string option \<Rightarrow> bool" where
  "truthy v = (case v of None \<Rightarrow> False | Some s \<Rightarrow> s \<noteq> [])"

datatype InvalidConfigurationMode = Silent | Warn | Error

record ProviderConfig =
  clientId :: string
  clientSecret :: string
  scopes :: "string list option"
  scope :: "string option"
  redirectUri :: "string option"
  allowedTenants :: "string list option"

record JwtCookieConfig =
  cookie_name :: "string option"

record JwtConfig =
  secret :: string
  expiresInSeconds :: "nat option"
  cookie :: "JwtCookieConfig option"

record OAuthUser =
  provider :: string
  providerAccountId :: string
  email :: "string option"
  user_name :: "string option"
  avatar :: "string option"
  user_raw :: string

record PadlockJwtPayload =
  sub :: string
  jwt_provider :: string
  jwt_providerAccountId :: string

record TrustedProvider =
  authenticate :: "string list \<Rightarrow> thrown + OAuthUser option"

record PadlockConfig =
  baseUrl :: string
  providers_opt :: "(string \<times> ProviderConfig option) list option"
  trustedProviders_opt :: "(string \<times> TrustedProvider option) list option"
  jwt :: "JwtConfig option"
  onUser :: "(OAuthUser \<Rightarrow> thrown + OAuthUser) option"
  onError :: "(thrown \<Rightarrow> thrown option) option"
  onInvalidConfiguration :: "InvalidConfigurationMode option"

text \<open>
  An object with string keys is an association list in \<^verbatim>\<open>Object.keys\<close> order; a
  property of a \<^verbatim>\<open>Partial<Record<...>>\<close> may be present with the value
  \<^verbatim>\<open>undefined\<close>, which is \<open>None\<close> at that key. A hook returns \<open>Inl e\<close> when
  it throws \<open>e\<close>; \<open>onError\<close> returns \<open>Some e\<close> when it throws.
\<close>

record Padlock =
  config :: PadlockConfig
  invalidMode :: InvalidConfigurationMode
  oauthProviders :: "(string \<times> ProviderConfig option) list"
  trustedProviders :: "(string \<times> TrustedProvider option) list"

definition supported_ids :: "string list" where
  "supported_ids = [''github'', ''microsoft'']"

definition has_key :: "string \<Rightarrow> (string \<times> 'a) list \<Rightarrow> bool" where
  "has_key k obj = (k \<in> set (map fst obj))"

definition get_prop :: "(string \<times> 'a option) list \<Rightarrow> string \<Rightarrow> 'a option" where
  "get_prop obj k = (case map_of obj k of None \<Rightarrow> None | Some v \<Rightarrow> v)"

section \<open>Construction and configuration validation\<close>

definition quoted :: "string \<Rightarrow> string" where
  "quoted s = [CHR 0x22] @ s @ [CHR 0x22]"

definition duplicate_message :: "string \<Rightarrow> string" where
  "duplicate_message key =
     ''provider '' @ quoted key @ '' cannot exist in both providers and trustedProviders''"

definition handleInvalidConfig ::
  "InvalidConfigurationMode \<Rightarrow> string \<Rightarrow> string list \<Rightarrow> thrown + string list" where
  "handleInvalidConfig m message warnings =
     (case m of
        Silent \<Rightarrow> Inr warnings
      | Warn \<Rightarrow> Inr (warnings @ [''[padlock] '' @ message])
      | Error \<Rightarrow> Inl (JsError (''[padlock] '' @ message)))"

fun check_duplicates ::
  "InvalidConfigurationMode \<Rightarrow> string list \<Rightarrow> string list \<Rightarrow> string list
     \<Rightarrow> thrown + string list" where
  "check_duplicates m trustedKeys [] warnings = Inr warnings"
| "check_duplicates m trustedKeys (key # keys) warnings =
     (if key \<in> set trustedKeys
      then (case handleInvalidConfig m (duplicate_message key) warnings of
              Inl e \<Rightarrow> Inl e
            | Inr w \<Rightarrow> check_duplicates m trustedKeys keys w)
      else check_duplicates m trustedKeys keys warnings)"

definition check_credentials ::
  "InvalidConfigurationMode \<Rightarrow> string \<Rightarrow> ProviderConfig \<Rightarrow> string list
     \<Rightarrow> thrown + string list" where
  "check_credentials m providerId cfg warnings =
     (case (if clientId cfg = []
            then handleInvalidConfig m
                   (''provider '' @ quoted providerId @ '' is missing clientId'') warnings
            else Inr warnings) of
        Inl e \<Rightarrow> Inl e
      | Inr w \<Rightarrow>
          (if clientSecret cfg = []
           then handleInvalidConfig m
                  (''provider '' @ quoted providerId @ '' is missing clientSecret'') w
           else Inr w))"

fun check_providers ::
  "InvalidConfigurationMode \<Rightarrow> (string \<times> ProviderConfig option) list \<Rightarrow> string list
     \<Rightarrow> string list \<Rightarrow> thrown + string list" where
  "check_providers m obj [] warnings = Inr warnings"
| "check_providers m obj (providerId # keys) warnings =
     (case (if providerId \<notin> set supported_ids
            then handleInvalidConfig m
                   (''provider '' @ quoted providerId @ '' is not supported'') warnings
            else (case get_prop obj providerId of
                    None \<Rightarrow>
                      handleInvalidConfig m
                        (''provider '' @ quoted providerId @ '' is missing config'') warnings
                  | Some cfg \<Rightarrow> check_credentials m providerId cfg warnings)) of
        Inl e \<Rightarrow> Inl e
      | Inr w \<Rightarrow> check_providers m obj keys w)"

definition validateConfiguration :: "Padlock \<Rightarrow> string list \<Rightarrow> thrown + string list" where
  "validateConfiguration p warnings =
     (let oauthKeys = remdups (map fst (oauthProviders p));
          trustedKeys = remdups (map fst (trustedProviders p))
      in case check_duplicates (invalidMode p) trustedKeys oauthKeys warnings of
           Inl e \<Rightarrow> Inl e
         | Inr w \<Rightarrow> check_providers (invalidMode p) (oauthProviders p) oauthKeys w)"

definition mode_of :: "PadlockConfig \<Rightarrow> InvalidConfigurationMode" where
  "mode_of cfg = (case onInvalidConfiguration cfg of None \<Rightarrow> Warn | Some m \<Rightarrow> m)"

definition new_Padlock :: "PadlockConfig \<Rightarrow> (thrown + Padlock) \<times> string list" where
  "new_Padlock cfg =
     (let p = \<lparr> config = cfg,
                invalidMode = mode_of cfg,
                oauthProviders = (case providers_opt cfg of None \<Rightarrow> [] | Some ps \<Rightarrow> ps),
                trustedProviders = (case trustedProviders_opt cfg of None \<Rightarrow> [] | Some ps \<Rightarrow> ps) \<rparr>
      in case validateConfiguration p [] of
           Inl e \<Rightarrow> (Inl e, [])
         | Inr w \<Rightarrow> (Inr p, w))"

text \<open>
  \<open>new_Padlock\<close> returns the instance, or the error the constructor throws, together
  with the lines written by \<^verbatim>\<open>console.warn\<close>.
\<close>


section \<open>Collaborators, requests and the cookie jar\<close>

text \<open>
  What the handlers obtain from outside the repository is a record of functions: the
  random draws of one request, \<^verbatim>\<open>./pkce.js\<close>, \<^verbatim>\<open>JSON\<close>, the WHATWG
  \<^verbatim>\<open>URL\<close> parser, the \<^verbatim>\<open>jsonwebtoken\<close> library and the provider capabilities
  that go over the network. \<open>JSON_parse_state s\<close> is \<^verbatim>\<open>JSON.parse(s)\<close> read at
  the type the source casts it to, \<^verbatim>\<open>{ provider?: string; state?: string }\<close>; it is
  \<open>Inl e\<close> when parsing throws, and when the value is \<^verbatim>\<open>null\<close> so that reading
  its first property throws. \<open>url_origin u\<close> is \<^verbatim>\<open>new URL(u).origin\<close>, \<open>None\<close>
  when the constructor throws. \<open>jwt_verify\<close> is \<open>None\<close> when \<^verbatim>\<open>jwt.verify\<close>
  throws.
\<close>

record ParsedState =
  ps_provider :: "string option"
  ps_state :: "string option"

record ExchangeParams =
  ex_code :: string
  ex_codeVerifier :: string
  ex_clientId :: string
  ex_clientSecret :: string
  ex_redirectUri :: string
  ex_providerConfig :: ProviderConfig

record World =
  generateCodeVerifier :: string
  generateCodeChallenge :: "string \<Rightarrow> string"
  randomToken :: string
  JSON_stringify_state :: "string \<Rightarrow> string \<Rightarrow> string"
  JSON_parse_state :: "string \<Rightarrow> thrown + ParsedState"
  url_origin :: "string \<Rightarrow> string option"
  jwt_sign :: "PadlockJwtPayload \<Rightarrow> string \<Rightarrow> nat \<Rightarrow> thrown + string"
  jwt_verify :: "string \<Rightarrow> string \<Rightarrow> PadlockJwtPayload option"
  provider_exchangeCode :: "string \<Rightarrow> ExchangeParams \<Rightarrow> thrown + string option"
  provider_fetchUser :: "string \<Rightarrow> string option \<Rightarrow> thrown + OAuthUser"

datatype event =
    ExchangeCode string ExchangeParams
  | FetchUser string "string option"
  | Authenticate string "string list"
  | OnUser OAuthUser
  | OnError thrown

record IO =
  cookies :: "string \<rightharpoonup> string"
  trace :: "event list"

text \<open>
  The cookie jar keeps string values by name, as the repository's test double
  \<^verbatim>\<open>createCookies\<close> does; the options of \<^verbatim>\<open>set\<close> and \<^verbatim>\<open>delete\<close> (path,
  maxAge, httpOnly, sameSite) are not part of the state. \<open>trace\<close> lists the calls
  made to collaborators, oldest first.
\<close>

definition cookies_set :: "string \<Rightarrow> string \<Rightarrow> IO \<Rightarrow> IO" where
  "cookies_set n v io = io\<lparr>cookies := (cookies io)(n \<mapsto> v)\<rparr>"

definition cookies_delete :: "string \<Rightarrow> IO \<Rightarrow> IO" where
  "cookies_delete n io = io\<lparr>cookies := (cookies io)(n := None)\<rparr>"

definition emit :: "event \<Rightarrow> IO \<Rightarrow> IO" where
  "emit e io = io\<lparr>trace := trace io @ [e]\<rparr>"

datatype url_spec = UrlString string | UrlFunction "ProviderConfig \<Rightarrow> string"

record OAuthProvider =
  provider_id :: string
  authorizeUrl :: url_spec
  tokenUrl :: url_spec
  defaultScopes :: "string list option"

datatype response =
    Redirect302 url_spec "(string \<times> string) list"
  | JsonResponse OAuthUser

text \<open>
  \<open>Redirect302 u params\<close> is the response with status 302 whose \<^verbatim>\<open>Location\<close> is
  the template \<^verbatim>\<open>`${provider.authorizeUrl}?${params}`\<close>: the descriptor's
  \<^verbatim>\<open>authorizeUrl\<close> value and the entries of the \<^verbatim>\<open>URLSearchParams\<close>, in order,
  before percent-encoding.
\<close>

datatype request_body = BodyUnreadable | BodyWithoutArgs | BodyArgs "string list"

record AuthRequest =
  provider_param :: "string option"
  http_method :: string
  origin_header :: "string option"
  referer_header :: "string option"
  body :: request_body

record CallbackRequest =
  code_param :: "string option"
  state_param :: "string option"
  error_param :: "string option"
  error_description_param :: "string option"

section \<open>Provider descriptors\<close>

definition getTenant :: "ProviderConfig \<Rightarrow> string option" where
  "getTenant cfg =
     (case allowedTenants cfg of
        None \<Rightarrow> None
      | Some tenants \<Rightarrow>
          (case tenants of [t] \<Rightarrow> Some t | _ \<Rightarrow> None))"

definition getAuthorizeUrl :: "ProviderConfig \<Rightarrow> string" where
  "getAuthorizeUrl cfg =
     (let segment = (case getTenant cfg of None \<Rightarrow> ''common'' | Some t \<Rightarrow> t)
      in ''https://login.microsoftonline.com/'' @ segment @ ''/oauth2/v2.0/authorize'')"

definition getTokenUrl :: "ProviderConfig \<Rightarrow> string" where
  "getTokenUrl cfg =
     (let segment = (case getTenant cfg of None \<Rightarrow> ''common'' | Some t \<Rightarrow> t)
      in ''https://login.microsoftonline.com/'' @ segment @ ''/oauth2/v2.0/token'')"

definition microsoft :: OAuthProvider where
  "microsoft =
     \<lparr> provider_id = ''microsoft'',
       authorizeUrl = UrlFunction getAuthorizeUrl,
       tokenUrl = UrlFunction getTokenUrl,
       defaultScopes = Some [''openid'', ''profile'', ''email'', ''User.Read''] \<rparr>"

definition github :: OAuthProvider where
  "github =
     \<lparr> provider_id = ''github'',
       authorizeUrl = UrlString ''https://github.com/login/oauth/authorize'',
       tokenUrl = UrlString ''https://github.com/login/oauth/access_token'',
       defaultScopes = Some [''read:user'', ''user:email''] \<rparr>"

definition providers :: "(string \<times> OAuthProvider) list" where
  "providers = [(''github'', github), (''microsoft'', microsoft)]"

definition getProviderId :: "string option \<Rightarrow> (string \<times> 'a) list \<Rightarrow> string option" where
  "getProviderId v m =
     (case v of
        None \<Rightarrow> None
      | Some s \<Rightarrow> (if s = [] \<or> \<not> has_key s m then None else Some s))"


section \<open>The session token and the response\<close>

definition signJwt ::
  "World \<Rightarrow> PadlockJwtPayload \<Rightarrow> string \<Rightarrow> nat option \<Rightarrow> thrown + string" where
  "signJwt w payload sec expiresIn =
     jwt_sign w payload sec (case expiresIn of None \<Rightarrow> 60 * 60 | Some n \<Rightarrow> n)"

definition verifyJwt :: "World \<Rightarrow> string \<Rightarrow> string \<Rightarrow> PadlockJwtPayload option" where
  "verifyJwt w token sec = jwt_verify w token sec"

definition session_payload :: "OAuthUser \<Rightarrow> PadlockJwtPayload" where
  "session_payload user =
     \<lparr> sub = provider user @ '':'' @ providerAccountId user,
       jwt_provider = provider user,
       jwt_providerAccountId = providerAccountId user \<rparr>"

definition session_cookie_name :: "JwtConfig \<Rightarrow> string" where
  "session_cookie_name j =
     (case cookie j of
        None \<Rightarrow> ''padlock_token''
      | Some c \<Rightarrow> (case cookie_name c of None \<Rightarrow> ''padlock_token'' | Some n \<Rightarrow> n))"

definition respondWithUser ::
  "Padlock \<Rightarrow> World \<Rightarrow> OAuthUser \<Rightarrow> IO \<Rightarrow> (thrown + response) \<times> IO" where
  "respondWithUser p w user io =
     (case jwt (config p) of
        None \<Rightarrow> (Inr (JsonResponse user), io)
      | Some j \<Rightarrow>
          (case signJwt w (session_payload user) (secret j) (expiresInSeconds j) of
             Inl e \<Rightarrow> (Inl e, io)
           | Inr token \<Rightarrow>
               (Inr (JsonResponse user), cookies_set (session_cookie_name j) token io)))"

definition post_authentication ::
  "Padlock \<Rightarrow> World \<Rightarrow> OAuthUser \<Rightarrow> IO \<Rightarrow> (thrown + response) \<times> IO" where
  "post_authentication p w user io =
     (case onUser (config p) of
        None \<Rightarrow> respondWithUser p w user io
      | Some hook \<Rightarrow>
          (case hook user of
             Inl e \<Rightarrow> (Inl e, emit (OnUser user) io)
           | Inr finalUser \<Rightarrow> respondWithUser p w finalUser (emit (OnUser user) io)))"

section \<open>Initiate: the auth handler\<close>

definition isSameOrigin :: "World \<Rightarrow> string \<Rightarrow> string \<Rightarrow> bool" where
  "isSameOrigin w origin base =
     (case url_origin w origin of
        None \<Rightarrow> False
      | Some a \<Rightarrow> (case url_origin w base of None \<Rightarrow> False | Some b \<Rightarrow> a = b))"

definition enforceCsrf :: "World \<Rightarrow> AuthRequest \<Rightarrow> string \<Rightarrow> thrown option" where
  "enforceCsrf w req base =
     (if truthy (origin_header req) \<and> \<not> isSameOrigin w (the (origin_header req)) base
      then Some (HttpError 403 ''invalid origin'')
      else if truthy (referer_header req) \<and> \<not> isSameOrigin w (the (referer_header req)) base
      then Some (HttpError 403 ''invalid referer'')
      else None)"

fun join_with :: "string \<Rightarrow> string list \<Rightarrow> string" where
  "join_with sep [] = []"
| "join_with sep [x] = x"
| "join_with sep (x # y # ys) = x @ sep @ join_with sep (y # ys)"

definition configured_scope :: "ProviderConfig \<Rightarrow> string" where
  "configured_scope providerConfig =
     (case scopes providerConfig of
        Some ss \<Rightarrow> join_with '' '' ss
      | None \<Rightarrow> (case scope providerConfig of Some s \<Rightarrow> s | None \<Rightarrow> []))"

definition callback_uri :: "Padlock \<Rightarrow> ProviderConfig \<Rightarrow> string" where
  "callback_uri p providerConfig =
     (case redirectUri providerConfig of
        Some u \<Rightarrow> u
      | None \<Rightarrow> baseUrl (config p) @ ''/auth/callback'')"

definition auth_oauth ::
  "Padlock \<Rightarrow> World \<Rightarrow> string \<Rightarrow> IO \<Rightarrow> (thrown + response) \<times> IO" where
  "auth_oauth p w raw io =
     (case getProviderId (Some raw) providers of
        None \<Rightarrow> (Inl (HttpError 400 ''invalid provider''), io)
      | Some providerId \<Rightarrow>
          (let verifier = generateCodeVerifier w;
               challenge = generateCodeChallenge w verifier;
               io1 = cookies_set (''pkce_'' @ providerId) verifier io;
               state = randomToken w;
               io2 = cookies_set (''oauth_state_'' @ providerId) state io1
           in case (map_of providers providerId, get_prop (oauthProviders p) providerId) of
                (Some descriptor, Some providerConfig) \<Rightarrow>
                  (Inr (Redirect302 (authorizeUrl descriptor)
                     [(''client_id'', clientId providerConfig),
                      (''redirect_uri'', callback_uri p providerConfig),
                      (''response_type'', ''code''),
                      (''scope'', configured_scope providerConfig),
                      (''state'', JSON_stringify_state w providerId state),
                      (''code_challenge'', challenge),
                      (''code_challenge_method'', ''S256'')]), io2)
              | _ \<Rightarrow> (Inl (JsError ''TypeError''), io2)))"

definition auth_trusted ::
  "Padlock \<Rightarrow> World \<Rightarrow> string \<Rightarrow> AuthRequest \<Rightarrow> IO \<Rightarrow> (thrown + response) \<times> IO" where
  "auth_trusted p w raw req io =
     (if http_method req \<noteq> ''POST'' then (Inl (HttpError 405 ''method not allowed''), io)
      else case enforceCsrf w req (baseUrl (config p)) of
        Some e \<Rightarrow> (Inl e, io)
      | None \<Rightarrow>
          (case get_prop (trustedProviders p) raw of
             None \<Rightarrow> (Inl (HttpError 400 ''unknown provider''), io)
           | Some tp \<Rightarrow>
               (let args = (case body req of BodyArgs a \<Rightarrow> a | _ \<Rightarrow> []);
                    io1 = emit (Authenticate raw args) io
                in case authenticate tp args of
                     Inl e \<Rightarrow> (Inl e, io1)
                   | Inr None \<Rightarrow> (Inl (HttpError 401 ''authentication failed''), io1)
                   | Inr (Some user) \<Rightarrow> post_authentication p w user io1)))"

definition auth ::
  "Padlock \<Rightarrow> World \<Rightarrow> AuthRequest \<Rightarrow> IO \<Rightarrow> (thrown + response) \<times> IO" where
  "auth p w req io =
     (if \<not> truthy (provider_param req) then (Inl (HttpError 400 ''missing provider''), io)
      else let raw = the (provider_param req)
           in if has_key raw (oauthProviders p) then auth_oauth p w raw io
              else if has_key raw (trustedProviders p) then auth_trusted p w raw req io
              else (Inl (HttpError 400 ''unknown provider''), io))"

section \<open>Complete: the callback handler\<close>

definition callback_exchange ::
  "Padlock \<Rightarrow> World \<Rightarrow> string \<Rightarrow> ProviderConfig \<Rightarrow> string \<Rightarrow> string \<Rightarrow> IO
     \<Rightarrow> (thrown + response) \<times> IO" where
  "callback_exchange p w providerId providerConfig code verifier io =
     (let params = \<lparr> ex_code = code, ex_codeVerifier = verifier,
                      ex_clientId = clientId providerConfig,
                      ex_clientSecret = clientSecret providerConfig,
                      ex_redirectUri = callback_uri p providerConfig,
                      ex_providerConfig = providerConfig \<rparr>;
          io1 = emit (ExchangeCode providerId params) io
      in case provider_exchangeCode w providerId params of
           Inl e \<Rightarrow> (Inl e, io1)
         | Inr token \<Rightarrow>
             (let io2 = emit (FetchUser providerId token) io1
              in case provider_fetchUser w providerId token of
                   Inl e \<Rightarrow> (Inl e, io2)
                 | Inr user \<Rightarrow> post_authentication p w user io2))"

definition callback_try ::
  "Padlock \<Rightarrow> World \<Rightarrow> CallbackRequest \<Rightarrow> IO \<Rightarrow> (thrown + response) \<times> IO" where
  "callback_try p w req io =
     (if truthy (error_param req)
      then (Inl (HttpError 400
              (if truthy (error_description_param req)
               then the (error_param req) @ '': '' @ the (error_description_param req)
               else the (error_param req))), io)
      else if \<not> truthy (code_param req) \<or> \<not> truthy (state_param req)
      then (Inl (HttpError 400 ''invalid callback''), io)
      else case JSON_parse_state w (the (state_param req)) of
        Inl e \<Rightarrow> (Inl e, io)
      | Inr parsedState \<Rightarrow>
          (case getProviderId (ps_provider parsedState) providers of
             None \<Rightarrow> (Inl (HttpError 400 ''unknown provider''), io)
           | Some providerId \<Rightarrow>
               (case get_prop (oauthProviders p) providerId of
                  None \<Rightarrow> (Inl (HttpError 400 ''provider not configured''), io)
                | Some providerConfig \<Rightarrow>
                    (let expectedState = cookies io (''oauth_state_'' @ providerId)
                     in if \<not> truthy expectedState \<or> ps_state parsedState \<noteq> expectedState
                        then (Inl (HttpError 400 ''invalid state''), io)
                        else let verifier = cookies io (''pkce_'' @ providerId)
                             in if \<not> truthy verifier
                                then (Inl (HttpError 400 ''missing pkce''), io)
                                else callback_exchange p w providerId providerConfig
                                       (the (code_param req)) (the verifier)
                                       (cookies_delete (''oauth_state_'' @ providerId)
                                          (cookies_delete (''pkce_'' @ providerId) io))))))"

definition callback_catch :: "Padlock \<Rightarrow> thrown \<Rightarrow> IO \<Rightarrow> (thrown + response) \<times> IO" where
  "callback_catch p err io =
     (let rethrown = (if carries_status err then err else HttpError 500 ''auth error'')
      in case onError (config p) of
           None \<Rightarrow> (Inl rethrown, io)
         | Some hook \<Rightarrow>
             (case hook err of
                Some e \<Rightarrow> (Inl e, emit (OnError err) io)
              | None \<Rightarrow> (Inl rethrown, emit (OnError err) io)))"

definition callback ::
  "Padlock \<Rightarrow> World \<Rightarrow> CallbackRequest \<Rightarrow> IO \<Rightarrow> (thrown + response) \<times> IO" where
  "callback p w req io =
     (case callback_try p w req io of
        (Inr r, io') \<Rightarrow> (Inr r, io')
      | (Inl err, io') \<Rightarrow> callback_catch p err io')"

section \<open>The authorization check\<close>

definition startsWith :: "string \<Rightarrow> string \<Rightarrow> bool" where
  "startsWith s pre = (take (length pre) s = pre)"

definition extractToken :: "string option \<Rightarrow> (string \<rightharpoonup> string) \<Rightarrow> string \<Rightarrow> string option" where
  "extractToken authorization jar cookieName =
     (case authorization of
        Some a \<Rightarrow> (if startsWith a ''Bearer '' then Some (drop 7 a) else jar cookieName)
      | None \<Rightarrow> jar cookieName)"

definition authorize ::
  "Padlock \<Rightarrow> World \<Rightarrow> string option \<Rightarrow> (string \<rightharpoonup> string) \<Rightarrow> bool
     \<Rightarrow> thrown + PadlockJwtPayload option" where
  "authorize p w authorization jar required =
     (case jwt (config p) of
        None \<Rightarrow> Inl (HttpError 500 ''jwt configuration is missing'')
      | Some j \<Rightarrow>
          (let token = extractToken authorization jar (session_cookie_name j)
           in if \<not> truthy token
              then (if required then Inl (HttpError 401 ''invalid or missing token'')
                    else Inr None)
              else (case jwt_verify w (the token) (secret j) of
                      Some payload \<Rightarrow> Inr (Some payload)
                    | None \<Rightarrow>
                        (if required then Inl (HttpError 401 ''invalid token'')
                         else Inr None))))"


section \<open>Provider capabilities over the network\<close>

text \<open>
  The network is a record of functions. \<open>post_token url form\<close> is the
  \<^verbatim>\<open>access_token\<close> property of the JSON body answered to the POST of \<open>form\<close> at
  \<open>url\<close> (\<open>None\<close> when the property is missing), and \<open>Inl e\<close> when
  \<^verbatim>\<open>fetch\<close> or \<^verbatim>\<open>res.json()\<close> throws. \<open>decode_jwt_payload seg\<close> is
  \<^verbatim>\<open>JSON.parse(Buffer.from(seg, "base64url").toString("utf-8"))\<close> read at the type
  \<^verbatim>\<open>{ tid?: string }\<close>, \<open>None\<close> when that throws. \<open>get_user\<close> and
  \<open>get_emails\<close> are the two GitHub requests for a bearer token.
\<close>

record JwtClaims =
  tid :: "string option"

record GhUser =
  gh_id_String :: string
  gh_email :: "string option"
  gh_name :: "string option"
  gh_login :: "string option"
  gh_avatar_url :: "string option"
  gh_raw :: string

record EmailEntry =
  entry_email :: "string option"
  entry_primary :: bool
  entry_verified :: bool

datatype emails_json = NotAnArray | EmailsArray "EmailEntry option list"

record EmailsResponse =
  res_ok :: bool
  res_json :: "thrown + emails_json"

record Net =
  post_token :: "string \<Rightarrow> (string \<times> string) list \<Rightarrow> thrown + string option"
  decode_jwt_payload :: "string \<Rightarrow> JwtClaims option"
  get_user :: "string \<Rightarrow> thrown + GhUser"
  get_emails :: "string \<Rightarrow> thrown + EmailsResponse"

text \<open>
  \<open>gh_id_String\<close> is \<^verbatim>\<open>String(gh.id)\<close>. An entry of the e-mail list may be
  \<^verbatim>\<open>null\<close> (\<open>None\<close>), which the source reads with \<^verbatim>\<open>entry?.primary\<close>;
  \<open>entry_primary\<close> and \<open>entry_verified\<close> are the truth values of the two marks.
\<close>

fun split_on :: "char \<Rightarrow> string \<Rightarrow> string list" where
  "split_on c [] = [[]]"
| "split_on c (x # xs) =
     (if x = c then [] # split_on c xs
      else (case split_on c xs of
              [] \<Rightarrow> [[x]]
            | part # parts \<Rightarrow> (x # part) # parts))"

definition getJwtTenantId :: "Net \<Rightarrow> string \<Rightarrow> string option" where
  "getJwtTenantId net token =
     (let parts = split_on CHR ''.'' token
      in if length parts < 2 then None
         else (case decode_jwt_payload net (parts ! 1) of
                 None \<Rightarrow> None
               | Some payload \<Rightarrow> tid payload))"

definition resolve_url :: "url_spec \<Rightarrow> ProviderConfig \<Rightarrow> string" where
  "resolve_url u cfg = (case u of UrlString s \<Rightarrow> s | UrlFunction f \<Rightarrow> f cfg)"

definition microsoft_token_form :: "ExchangeParams \<Rightarrow> (string \<times> string) list" where
  "microsoft_token_form params =
     [(''client_id'', ex_clientId params),
      (''client_secret'', ex_clientSecret params),
      (''grant_type'', ''authorization_code''),
      (''code'', ex_code params),
      (''redirect_uri'', ex_redirectUri params),
      (''code_verifier'', ex_codeVerifier params)]"

definition microsoft_exchangeCode :: "Net \<Rightarrow> ExchangeParams \<Rightarrow> thrown + string option" where
  "microsoft_exchangeCode net params =
     (let providerConfig = ex_providerConfig params;
          url = resolve_url (tokenUrl microsoft) providerConfig
      in case post_token net url (microsoft_token_form params) of
           Inl e \<Rightarrow> Inl e
         | Inr accessToken \<Rightarrow>
             (let allowed = (case allowedTenants providerConfig of
                               None \<Rightarrow> []
                             | Some ts \<Rightarrow> filter (\<lambda>t. t \<noteq> []) ts)
              in if length allowed > 0
                 then (let tenantId = (if truthy accessToken
                                       then getJwtTenantId net (the accessToken)
                                       else None)
                       in if \<not> truthy tenantId \<or> the tenantId \<notin> set allowed
                          then Inl (JsError ''tenant not allowed'')
                          else Inr accessToken)
                 else Inr accessToken))"

definition orelse :: "'a option \<Rightarrow> 'a option \<Rightarrow> 'a option" where
  "orelse a b = (case a of None \<Rightarrow> b | Some v \<Rightarrow> Some v)"

definition email_of :: "EmailEntry option \<Rightarrow> string option" where
  "email_of entry = (case entry of None \<Rightarrow> None | Some e \<Rightarrow> entry_email e)"

definition is_primary_verified :: "EmailEntry option \<Rightarrow> bool" where
  "is_primary_verified entry =
     (case entry of None \<Rightarrow> False | Some e \<Rightarrow> entry_primary e \<and> entry_verified e)"

definition is_primary :: "EmailEntry option \<Rightarrow> bool" where
  "is_primary entry = (case entry of None \<Rightarrow> False | Some e \<Rightarrow> entry_primary e)"

definition found_email :: "EmailEntry option option \<Rightarrow> string option" where
  "found_email r = (case r of None \<Rightarrow> None | Some entry \<Rightarrow> email_of entry)"

definition select_email :: "EmailEntry option list \<Rightarrow> string option" where
  "select_email emails =
     (let primaryVerified = find is_primary_verified emails;
          primary = find is_primary emails
      in orelse (found_email primaryVerified)
           (orelse (found_email primary)
              (case emails of [] \<Rightarrow> None | first # _ \<Rightarrow> email_of first)))"

definition lookup_email :: "Net \<Rightarrow> string \<Rightarrow> string option \<Rightarrow> string option" where
  "lookup_email net accessToken email0 =
     (case get_emails net accessToken of
        Inl e \<Rightarrow> email0
      | Inr emailsRes \<Rightarrow>
          (if res_ok emailsRes
           then (case res_json emailsRes of
                   Inl e \<Rightarrow> email0
                 | Inr NotAnArray \<Rightarrow> email0
                 | Inr (EmailsArray emails) \<Rightarrow>
                     (if length emails > 0 then select_email emails else email0))
           else email0))"

definition github_fetchUser :: "Net \<Rightarrow> string \<Rightarrow> (thrown + OAuthUser) \<times> string list" where
  "github_fetchUser net accessToken =
     (case get_user net accessToken of
        Inl e \<Rightarrow> (Inl e, [''https://api.github.com/user''])
      | Inr gh \<Rightarrow>
          (let email0 = gh_email gh;
               looked = \<not> truthy email0;
               email1 = (if looked then lookup_email net accessToken email0 else email0)
           in (Inr \<lparr> provider = ''github'',
                     providerAccountId = gh_id_String gh,
                     email = email1,
                     user_name = orelse (gh_name gh) (gh_login gh),
                     avatar = gh_avatar_url gh,
                     user_raw = gh_raw gh \<rparr>,
               if looked
               then [''https://api.github.com/user'', ''https://api.github.com/user/emails'']
               else [''https://api.github.com/user''])))"

text \<open>
  The second component of \<open>github_fetchUser\<close> lists the URLs requested, in order.
\<close>

section \<open>Statements of the specification and sample inputs\<close>

text \<open>
  \<open>shared_ids cfg\<close> lists the identifiers that are keys of both provider maps of a
  configuration, in the order the constructor meets them; a construction
  \<open>reported\<close> something when it threw or wrote a warning.
\<close>

definition shared_ids :: "PadlockConfig \<Rightarrow> string list" where
  "shared_ids cfg =
     filter (\<lambda>k. k \<in> set (map fst (case trustedProviders_opt cfg of None \<Rightarrow> [] | Some ps \<Rightarrow> ps)))
       (remdups (map fst (case providers_opt cfg of None \<Rightarrow> [] | Some ps \<Rightarrow> ps)))"

definition reported :: "(thrown + Padlock) \<times> string list \<Rightarrow> bool" where
  "reported r = (case fst r of Inl e \<Rightarrow> True | Inr p \<Rightarrow> snd r \<noteq> [])"

text \<open>
  Sample inputs: the configurations, collaborators and requests at which the theorems
  below are instantiated.
\<close>

definition silent_config :: PadlockConfig where
  "silent_config =
     \<lparr> baseUrl = ''http://localhost:5173'',
       providers_opt = Some [(''github'',
          Some \<lparr> clientId = ''id'', clientSecret = ''secret'', scopes = None, scope = None,
                 redirectUri = None, allowedTenants = None \<rparr>)],
       trustedProviders_opt = Some [(''github'', Some \<lparr> authenticate = (\<lambda>args. Inr None) \<rparr>)],
       jwt = None, onUser = None, onError = None,
       onInvalidConfiguration = Some Silent \<rparr>"

definition warn_config :: PadlockConfig where
  "warn_config = silent_config\<lparr>onInvalidConfiguration := None\<rparr>"

definition error_config :: PadlockConfig where
  "error_config = silent_config\<lparr>onInvalidConfiguration := Some Error\<rparr>"

definition github_user :: OAuthUser where
  "github_user =
     \<lparr> provider = ''github'', providerAccountId = ''42'', email = Some ''octo@example.com'',
       user_name = Some ''Octo Cat'', avatar = None, user_raw = ''{}'' \<rparr>"

definition sample_state :: string where
  "sample_state = ''{provider:github,state:state-1}''"

definition sample_world :: World where
  "sample_world =
     \<lparr> generateCodeVerifier = ''verifier-1'',
       generateCodeChallenge = (\<lambda>v. ''S256-'' @ v),
       randomToken = ''state-1'',
       JSON_stringify_state = (\<lambda>pid st. ''{provider:'' @ pid @ '',state:'' @ st @ ''}''),
       JSON_parse_state = (\<lambda>s.
          if s = ''{provider:github,state:state-1}''
          then Inr \<lparr> ps_provider = Some ''github'', ps_state = Some ''state-1'' \<rparr>
          else if s = ''{provider:github,state:forged}''
          then Inr \<lparr> ps_provider = Some ''github'', ps_state = Some ''forged'' \<rparr>
          else Inl (JsError ''SyntaxError'')),
       url_origin = (\<lambda>u.
          if u = ''http://localhost:5173'' \<or> u = ''http://localhost:5173/login''
          then Some ''http://localhost:5173''
          else if u = ''https://evil.example'' then Some ''https://evil.example''
          else None),
       jwt_sign = (\<lambda>payload sec n. Inr (''jwt.'' @ sub payload)),
       jwt_verify = (\<lambda>token sec.
          if token = ''jwt.github:42'' \<and> sec = ''secret''
          then Some \<lparr> sub = ''github:42'', jwt_provider = ''github'',
                      jwt_providerAccountId = ''42'' \<rparr>
          else None),
       provider_exchangeCode = (\<lambda>pid params. Inr (Some ''access-1'')),
       provider_fetchUser = (\<lambda>pid token. Inr github_user) \<rparr>"

definition repo_config :: ProviderConfig where
  "repo_config =
     \<lparr> clientId = ''id'', clientSecret = ''secret'', scopes = Some [''repo''], scope = None,
       redirectUri = None, allowedTenants = None \<rparr>"

definition sample_padlock :: Padlock where
  "sample_padlock =
     \<lparr> config = \<lparr> baseUrl = ''http://localhost:5173'',
                  providers_opt = Some [(''github'', Some repo_config)],
                  trustedProviders_opt = None,
                  jwt = None, onUser = None, onError = None,
                  onInvalidConfiguration = None \<rparr>,
       invalidMode = Warn,
       oauthProviders = [(''github'', Some repo_config)],
       trustedProviders = [] \<rparr>"

definition empty_io :: IO where
  "empty_io = \<lparr> cookies = Map.empty, trace = [] \<rparr>"

definition github_get :: AuthRequest where
  "github_get =
     \<lparr> provider_param = Some ''github'', http_method = ''GET'', origin_header = None,
       referer_header = None, body = BodyUnreadable \<rparr>"

text \<open>
  The scope the specification asks for: the descriptor's default scopes followed by the
  configured scopes, joined with single spaces. \<open>location_param\<close> reads a query
  parameter of a redirect.
\<close>

definition merged_scope :: "OAuthProvider \<Rightarrow> ProviderConfig \<Rightarrow> string" where
  "merged_scope descriptor providerConfig =
     join_with '' ''
       ((case defaultScopes descriptor of None \<Rightarrow> [] | Some ds \<Rightarrow> ds)
        @ (case scopes providerConfig of None \<Rightarrow> [] | Some ss \<Rightarrow> ss))"

definition location_param :: "string \<Rightarrow> thrown + response \<Rightarrow> string option" where
  "location_param k r =
     (case r of
        Inr (Redirect302 u params) \<Rightarrow> map_of params k
      | _ \<Rightarrow> None)"

definition bare_config :: ProviderConfig where
  "bare_config = repo_config\<lparr>scopes := None\<rparr>"

definition bare_padlock :: Padlock where
  "bare_padlock =
     sample_padlock\<lparr>oauthProviders := [(''github'', Some bare_config)]\<rparr>"

definition internal_user :: OAuthUser where
  "internal_user =
     \<lparr> provider = ''internal'', providerAccountId = ''123'', email = Some ''a@example.com'',
       user_name = Some ''John Does'', avatar = None, user_raw = ''{}'' \<rparr>"

definition internal_provider :: TrustedProvider where
  "internal_provider =
     \<lparr> authenticate = (\<lambda>args.
          if args = [''a@example.com'', ''pw''] then Inr (Some internal_user)
          else if args = [] then Inr None
          else Inl (JsError ''invalid credentials'')) \<rparr>"

definition trusted_padlock :: Padlock where
  "trusted_padlock =
     \<lparr> config = \<lparr> baseUrl = ''http://localhost:5173'',
                  providers_opt = None,
                  trustedProviders_opt = Some [(''internal'', Some internal_provider)],
                  jwt = None, onUser = None,
                  onError = Some (\<lambda>e. None),
                  onInvalidConfiguration = None \<rparr>,
       invalidMode = Warn,
       oauthProviders = [],
       trustedProviders = [(''internal'', Some internal_provider)] \<rparr>"

definition internal_post :: "string option \<Rightarrow> string option \<Rightarrow> request_body \<Rightarrow> AuthRequest" where
  "internal_post origin referer b =
     \<lparr> provider_param = Some ''internal'', http_method = ''POST'', origin_header = origin,
       referer_header = referer, body = b \<rparr>"

definition body_args :: "request_body \<Rightarrow> string list" where
  "body_args b = (case b of BodyArgs a \<Rightarrow> a | _ \<Rightarrow> [])"

text \<open>
  The \<^verbatim>\<open>state\<close> parameter matches when it parses, names a provider and embeds a
  token equal to the value of that provider's \<^verbatim>\<open>oauth_state_\<close> cookie.
  \<open>exchange_calls\<close> are the calls to \<^verbatim>\<open>exchangeCode\<close> recorded in the trace.
\<close>

definition state_matches :: "World \<Rightarrow> CallbackRequest \<Rightarrow> IO \<Rightarrow> bool" where
  "state_matches w req io =
     (case state_param req of
        None \<Rightarrow> False
      | Some s \<Rightarrow>
          (case JSON_parse_state w s of
             Inl e \<Rightarrow> False
           | Inr parsed \<Rightarrow>
               (case ps_provider parsed of
                  None \<Rightarrow> False
                | Some pid \<Rightarrow>
                    (case ps_state parsed of
                       None \<Rightarrow> False
                     | Some token \<Rightarrow> cookies io (''oauth_state_'' @ pid) = Some token))))"

fun is_ExchangeCode :: "event \<Rightarrow> bool" where
  "is_ExchangeCode (ExchangeCode pid params) = True"
| "is_ExchangeCode _ = False"

definition exchange_calls :: "IO \<Rightarrow> event list" where
  "exchange_calls io = filter is_ExchangeCode (trace io)"

definition pending_io :: IO where
  "pending_io =
     \<lparr> cookies = [''pkce_github'' \<mapsto> ''verifier-1'', ''oauth_state_github'' \<mapsto> ''state-1''],
       trace = [] \<rparr>"

definition callback_request :: "string \<Rightarrow> CallbackRequest" where
  "callback_request st =
     \<lparr> code_param = Some ''code-1'', state_param = Some st, error_param = None,
       error_description_param = None \<rparr>"

definition forged_state :: string where
  "forged_state = ''{provider:github,state:forged}''"

definition session_padlock :: Padlock where
  "session_padlock =
     sample_padlock\<lparr>config := (config sample_padlock)
        \<lparr>jwt := Some \<lparr> secret = ''secret'', expiresInSeconds = None, cookie = None \<rparr>\<rparr>\<rparr>"

text \<open>
  The Microsoft endpoints for a tenant segment; the \<^verbatim>\<open>tid\<close> claim of an issued
  access token, absent when there is no token or it does not decode; and whether a
  claim is a non-empty entry of a tenant list.
\<close>

definition tenant_url :: "string \<Rightarrow> string \<Rightarrow> string" where
  "tenant_url segment endpoint =
     ''https://login.microsoftonline.com/'' @ segment @ ''/oauth2/v2.0/'' @ endpoint"

definition tenant_claim :: "Net \<Rightarrow> string option \<Rightarrow> string option" where
  "tenant_claim net accessToken =
     (case accessToken of
        None \<Rightarrow> None
      | Some token \<Rightarrow> (if token = [] then None else getJwtTenantId net token))"

definition tenant_allowed :: "string option \<Rightarrow> string list \<Rightarrow> bool" where
  "tenant_allowed claim tenants =
     (case claim of None \<Rightarrow> False | Some t \<Rightarrow> t \<noteq> [] \<and> t \<in> set tenants)"

definition sample_net :: Net where
  "sample_net =
     \<lparr> post_token = (\<lambda>url form. Inr (Some ''header.PAYLOAD-A.'')),
       decode_jwt_payload = (\<lambda>segment.
          if segment = ''PAYLOAD-A'' then Some \<lparr> tid = Some ''tenant-a'' \<rparr> else None),
       get_user = (\<lambda>token. Inl (JsError ''fetch failed'')),
       get_emails = (\<lambda>token. Inl (JsError ''fetch failed'')) \<rparr>"

definition tenant_config :: "string list option \<Rightarrow> ProviderConfig" where
  "tenant_config tenants =
     \<lparr> clientId = ''id'', clientSecret = ''secret'', scopes = None, scope = None,
       redirectUri = None, allowedTenants = tenants \<rparr>"

definition tenant_params :: "string list option \<Rightarrow> ExchangeParams" where
  "tenant_params tenants =
     \<lparr> ex_code = ''code'', ex_codeVerifier = ''verifier'', ex_clientId = ''id'',
       ex_clientSecret = ''secret'',
       ex_redirectUri = ''http://localhost:5173/auth/callback'',
       ex_providerConfig = tenant_config tenants \<rparr>"

definition octo :: GhUser where
  "octo =
     \<lparr> gh_id_String = ''1'', gh_email = None, gh_name = None, gh_login = Some ''octo'',
       gh_avatar_url = None, gh_raw = ''{}'' \<rparr>"

definition entry :: "string \<Rightarrow> bool \<Rightarrow> bool \<Rightarrow> EmailEntry option" where
  "entry m p v = Some \<lparr> entry_email = Some m, entry_primary = p, entry_verified = v \<rparr>"

definition octo_emails :: "EmailEntry option list" where
  "octo_emails =
     [entry ''a@example.com'' True False,
      entry ''b@example.com'' True True,
      entry ''c@example.com'' False True]"

definition github_net :: "thrown + EmailsResponse \<Rightarrow> Net" where
  "github_net emailsRes =
     \<lparr> post_token = (\<lambda>url form. Inr None),
       decode_jwt_payload = (\<lambda>segment. None),
       get_user = (\<lambda>token. Inr octo),
       get_emails = (\<lambda>token. emailsRes) \<rparr>"

text \<open>
  The \<^verbatim>\<open>jsonwebtoken\<close> library, whose \<^verbatim>\<open>jwt.sign\<close> and \<^verbatim>\<open>jwt.verify\<close> the
  wrappers \<^verbatim>\<open>signJwt\<close> and \<^verbatim>\<open>verifyJwt\<close> call, is missing from the sources. The
  three definitions below model it from section 4.7 of the specification. A token is
  the signed payload with its issue time, its expiry time (seconds) and the signature.
\<close>

record SignedToken =
  tok_claims :: PadlockJwtPayload
  tok_iat :: nat
  tok_exp :: nat
  tok_signature :: string

text \<open>
  Modelled from the spec: \<^verbatim>\<open>jwt.sign\<close> of the missing \<^verbatim>\<open>jsonwebtoken\<close> library.
  Issuing is a deterministic signature (of the HMAC family, the parameter \<open>mac\<close>)
  binding \<^verbatim>\<open>sub\<close>, \<^verbatim>\<open>provider\<close>, \<^verbatim>\<open>providerAccountId\<close> and an expiry claim.
\<close>

definition spec_issue ::
  "(string \<Rightarrow> PadlockJwtPayload \<times> nat \<times> nat \<Rightarrow> string) \<Rightarrow> nat \<Rightarrow> PadlockJwtPayload
     \<Rightarrow> string \<Rightarrow> nat \<Rightarrow> SignedToken" where
  "spec_issue mac now payload sec expirySeconds =
     \<lparr> tok_claims = payload, tok_iat = now, tok_exp = now + expirySeconds,
       tok_signature = mac sec (payload, now, now + expirySeconds) \<rparr>"

text \<open>
  Modelled from the spec: \<^verbatim>\<open>jwt.verify\<close> of the missing \<^verbatim>\<open>jsonwebtoken\<close> library.
  Verifying rejects on signature mismatch or expiry, and otherwise returns the payload.
\<close>

definition spec_verify ::
  "(string \<Rightarrow> PadlockJwtPayload \<times> nat \<times> nat \<Rightarrow> string) \<Rightarrow> nat \<Rightarrow> SignedToken
     \<Rightarrow> string \<Rightarrow> PadlockJwtPayload option" where
  "spec_verify mac now token sec =
     (if tok_signature token \<noteq> mac sec (tok_claims token, tok_iat token, tok_exp token)
      then None
      else if tok_exp token \<le> now then None
      else Some (tok_claims token))"

text \<open>
  Modelled from the spec: the collaborators \<open>jwt_sign\<close> and \<open>jwt_verify\<close> given by
  the missing \<^verbatim>\<open>jsonwebtoken\<close> library, issuing at time \<open>issued_at\<close> and
  verifying at time \<open>checked_at\<close>; the wire form of a token is the pair of parameters
  \<open>encode\<close> and \<open>decode\<close>.
\<close>

definition spec_codec ::
  "(string \<Rightarrow> PadlockJwtPayload \<times> nat \<times> nat \<Rightarrow> string) \<Rightarrow> (SignedToken \<Rightarrow> string)
     \<Rightarrow> (string \<Rightarrow> SignedToken option) \<Rightarrow> nat \<Rightarrow> nat \<Rightarrow> World \<Rightarrow> World" where
  "spec_codec mac encode decode issued_at checked_at w =
     w\<lparr> jwt_sign := (\<lambda>payload sec expiresIn.
            Inr (encode (spec_issue mac issued_at payload sec expiresIn))),
        jwt_verify := (\<lambda>token sec.
            case decode token of
              None \<Rightarrow> None
            | Some t \<Rightarrow> spec_verify mac checked_at t sec) \<rparr>"

definition expiry_of :: "nat option \<Rightarrow> nat" where
  "expiry_of expiresIn = (case expiresIn of None \<Rightarrow> 60 * 60 | Some n \<Rightarrow> n)"

definition sample_mac :: "string \<Rightarrow> PadlockJwtPayload \<times> nat \<times> nat \<Rightarrow> string" where
  "sample_mac sec m = sec @ ''/'' @ sub (fst m)"

definition sample_token :: SignedToken where
  "sample_token = spec_issue sample_mac 1000 (session_payload github_user) ''secret'' 3600"

definition sample_encode :: "SignedToken \<Rightarrow> string" where
  "sample_encode t = sub (tok_claims t) @ ''.'' @ tok_signature t"

definition sample_decode :: "string \<Rightarrow> SignedToken option" where
  "sample_decode s = (if s = ''github:42.secret/github:42'' then Some sample_token else None)"

text \<open>
  The input of the repository's test ``uses tenant-specific Microsoft authorize URL when
  one tenant is provided'', and the URL value a redirect carries.
\<close>

definition single_tenant :: string where
  "single_tenant = ''00000000-0000-0000-0000-000000000000''"

definition tenant_padlock :: Padlock where
  "tenant_padlock =
     \<lparr> config = \<lparr> baseUrl = ''http://localhost:5173'',
                  providers_opt =
                    Some [(''microsoft'', Some (tenant_config (Some [single_tenant])))],
                  trustedProviders_opt = None,
                  jwt = None, onUser = None, onError = None,
                  onInvalidConfiguration = None \<rparr>,
       invalidMode = Warn,
       oauthProviders = [(''microsoft'', Some (tenant_config (Some [single_tenant])))],
       trustedProviders = [] \<rparr>"

definition microsoft_get :: AuthRequest where
  "microsoft_get =
     \<lparr> provider_param = Some ''microsoft'', http_method = ''GET'', origin_header = None,
       referer_header = None, body = BodyUnreadable \<rparr>"

definition location_url :: "thrown + response \<Rightarrow> url_spec option" where
  "location_url r =
     (case r of
        Inr (Redirect302 u params) \<Rightarrow> Some u
      | _ \<Rightarrow> None)"

text \<open>
  A configuration whose session cookie has a configured name.
\<close>

definition named_jwt :: JwtConfig where
  "named_jwt =
     \<lparr> secret = ''secret'', expiresInSeconds = None,
       cookie = Some \<lparr> cookie_name = Some ''padlock_jwt'' \<rparr> \<rparr>"

definition named_padlock :: Padlock where
  "named_padlock =
     sample_padlock\<lparr>config := (config sample_padlock)\<lparr>jwt := Some named_jwt\<rparr>\<rparr>"


section \<open>Configuration validation at construction\<close>

lemma check_duplicates_Silent: "check_duplicates Silent tk ks w = Inr w"
  by (induction ks arbitrary: w) (simp_all add: handleInvalidConfig_def)

lemma check_duplicates_Warn:
  "check_duplicates Warn tk ks w =
     Inr (w @ map (\<lambda>k. ''[padlock] '' @ duplicate_message k) (filter (\<lambda>k. k \<in> set tk) ks))"
  by (induction ks arbitrary: w) (simp_all add: handleInvalidConfig_def)

lemma check_duplicates_Error:
  "check_duplicates Error tk ks w =
     (case filter (\<lambda>k. k \<in> set tk) ks of
        [] \<Rightarrow> Inr w
      | k # _ \<Rightarrow> Inl (JsError (''[padlock] '' @ duplicate_message k)))"
  by (induction ks arbitrary: w) (simp_all add: handleInvalidConfig_def)

lemma check_credentials_Silent: "check_credentials Silent k c w = Inr w"
  by (simp add: check_credentials_def handleInvalidConfig_def)

lemma check_providers_Silent: "check_providers Silent obj ks w = Inr w"
  by (induction ks arbitrary: w)
     (simp_all add: handleInvalidConfig_def check_credentials_Silent split: option.splits)

lemma check_credentials_Warn: "\<exists>w'. check_credentials Warn k c w = Inr (w @ w')"
  by (simp add: check_credentials_def handleInvalidConfig_def)

lemma check_providers_Warn: "\<exists>w'. check_providers Warn obj ks w = Inr (w @ w')"
proof (induction ks arbitrary: w)
  case Nil
  then show ?case by simp
next
  case (Cons k ks)
  have "\<exists>w1. (if k \<notin> set supported_ids
            then handleInvalidConfig Warn
                   (''provider '' @ quoted k @ '' is not supported'') w
            else (case get_prop obj k of
                    None \<Rightarrow>
                      handleInvalidConfig Warn
                        (''provider '' @ quoted k @ '' is missing config'') w
                  | Some cfg \<Rightarrow> check_credentials Warn k cfg w)) = Inr (w @ w1)"
    using check_credentials_Warn by (auto simp: handleInvalidConfig_def split: option.splits)
  then obtain w1 where *: "(if k \<notin> set supported_ids
            then handleInvalidConfig Warn
                   (''provider '' @ quoted k @ '' is not supported'') w
            else (case get_prop obj k of
                    None \<Rightarrow>
                      handleInvalidConfig Warn
                        (''provider '' @ quoted k @ '' is missing config'') w
                  | Some cfg \<Rightarrow> check_credentials Warn k cfg w)) = Inr (w @ w1)" by blast
  from Cons.IH[of "w @ w1"] obtain w2 where "check_providers Warn obj ks (w @ w1) = Inr ((w @ w1) @ w2)" by blast
  with * show ?case by (simp del: check_credentials_def)
qed

lemma new_Padlock_Warn:
  assumes "mode_of cfg = Warn"
  shows "\<exists>p w'. new_Padlock cfg =
           (Inr p, map (\<lambda>k. ''[padlock] '' @ duplicate_message k) (shared_ids cfg) @ w')"
proof -
  let ?obj = "case providers_opt cfg of None \<Rightarrow> [] | Some ps \<Rightarrow> ps"
  let ?W = "map (\<lambda>k. ''[padlock] '' @ duplicate_message k) (shared_ids cfg)"
  obtain w' where "check_providers Warn ?obj (remdups (map fst ?obj)) ?W = Inr (?W @ w')"
    using check_providers_Warn by blast
  then show ?thesis
    using assms
    by (simp add: new_Padlock_def validateConfiguration_def check_duplicates_Warn
        shared_ids_def Let_def)
qed

lemma new_Padlock_Silent:
  assumes "mode_of cfg = Silent"
  shows "\<exists>p. new_Padlock cfg = (Inr p, [])"
  using assms
  by (simp add: new_Padlock_def validateConfiguration_def check_duplicates_Silent
      check_providers_Silent Let_def)

lemma new_Padlock_Error:
  assumes "mode_of cfg = Error" and "shared_ids cfg \<noteq> []"
  shows "new_Padlock cfg =
           (Inl (JsError (''[padlock] '' @ duplicate_message (hd (shared_ids cfg)))), [])"
proof -
  from assms(2) obtain d ds where "shared_ids cfg = d # ds"
    by (cases "shared_ids cfg") auto
  then show ?thesis
    using assms(1)
    by (simp add: new_Padlock_def validateConfiguration_def check_duplicates_Error
        shared_ids_def Let_def)
qed

text \<open>
  Claim C9, as amended. When some identifier is a key of both the OAuth provider map
  and the trusted-provider map, what construction does depends on
  \<^verbatim>\<open>onInvalidConfiguration\<close>: in mode \<^verbatim>\<open>"error"\<close> the constructor throws the
  error naming the first shared identifier (in key order); in mode \<^verbatim>\<open>"warn"\<close>, the
  default, it succeeds and writes one warning for every shared identifier; in mode
  \<^verbatim>\<open>"silent"\<close> it succeeds and reports nothing.
\<close>

theorem construction_reports_duplicates:
  assumes "k \<in> set (shared_ids cfg)"
  shows "(mode_of cfg = Error \<longrightarrow>
            new_Padlock cfg =
              (Inl (JsError (''[padlock] '' @ duplicate_message (hd (shared_ids cfg)))), []))
       \<and> (mode_of cfg = Warn \<longrightarrow>
            (\<exists>p. fst (new_Padlock cfg) = Inr p)
            \<and> ''[padlock] '' @ duplicate_message k \<in> set (snd (new_Padlock cfg)))
       \<and> (mode_of cfg = Silent \<longrightarrow>
            (\<exists>p. fst (new_Padlock cfg) = Inr p) \<and> snd (new_Padlock cfg) = [])"
proof (intro conjI impI)
  assume "mode_of cfg = Error"
  moreover from assms have "shared_ids cfg \<noteq> []" by auto
  ultimately show "new_Padlock cfg =
      (Inl (JsError (''[padlock] '' @ duplicate_message (hd (shared_ids cfg)))), [])"
    by (rule new_Padlock_Error)
next
  assume "mode_of cfg = Warn"
  then obtain p w' where *: "new_Padlock cfg =
      (Inr p, map (\<lambda>k. ''[padlock] '' @ duplicate_message k) (shared_ids cfg) @ w')"
    using new_Padlock_Warn by blast
  show "\<exists>p. fst (new_Padlock cfg) = Inr p" using * by simp
  show "''[padlock] '' @ duplicate_message k \<in> set (snd (new_Padlock cfg))"
    using * assms by simp
next
  assume "mode_of cfg = Silent"
  then obtain p where *: "new_Padlock cfg = (Inr p, [])"
    using new_Padlock_Silent by blast
  show "\<exists>p. fst (new_Padlock cfg) = Inr p" using * by simp
  show "snd (new_Padlock cfg) = []" using * by simp
qed

text \<open>
  Claim C9 as stated (every configuration sharing an identifier between the two maps
  is reported at construction) fails in mode \<^verbatim>\<open>"silent"\<close>: the constructor returns
  the instance and writes nothing.
\<close>

theorem silent_duplicate_counterexample:
  "\<not> (\<forall>cfg. shared_ids cfg \<noteq> [] \<longrightarrow> reported (new_Padlock cfg))"
proof
  assume "\<forall>cfg. shared_ids cfg \<noteq> [] \<longrightarrow> reported (new_Padlock cfg)"
  moreover have "shared_ids silent_config \<noteq> []"
    by (simp add: shared_ids_def silent_config_def)
  ultimately have r: "reported (new_Padlock silent_config)" by blast
  have "mode_of silent_config = Silent" by (simp add: mode_of_def silent_config_def)
  then obtain p where "new_Padlock silent_config = (Inr p, [])"
    using new_Padlock_Silent by blast
  with r show False by (simp add: reported_def)
qed

theorem construction_reports_duplicates_witness:
  "''github'' \<in> set (shared_ids error_config)
   \<and> new_Padlock error_config =
       (Inl (JsError (''[padlock] provider '' @ quoted ''github''
            @ '' cannot exist in both providers and trustedProviders'')), [])
   \<and> ''github'' \<in> set (shared_ids warn_config)
   \<and> snd (new_Padlock warn_config) =
       [''[padlock] provider '' @ quoted ''github''
            @ '' cannot exist in both providers and trustedProviders'']
   \<and> ''github'' \<in> set (shared_ids silent_config)
   \<and> snd (new_Padlock silent_config) = []"
proof -
  have e: "''github'' \<in> set (shared_ids error_config)"
    by (simp add: shared_ids_def error_config_def silent_config_def)
  have w: "''github'' \<in> set (shared_ids warn_config)"
    by (simp add: shared_ids_def warn_config_def silent_config_def)
  have s: "''github'' \<in> set (shared_ids silent_config)"
    by (simp add: shared_ids_def silent_config_def)
  have me: "mode_of error_config = Error"
    by (simp add: mode_of_def error_config_def silent_config_def)
  have ms: "mode_of silent_config = Silent"
    by (simp add: mode_of_def silent_config_def)
  have he: "hd (shared_ids error_config) = ''github''"
    by (simp add: shared_ids_def error_config_def silent_config_def)
  have ww: "snd (new_Padlock warn_config) =
       [''[padlock] provider '' @ quoted ''github''
            @ '' cannot exist in both providers and trustedProviders'']"
    by (simp add: new_Padlock_def validateConfiguration_def warn_config_def silent_config_def
        mode_of_def handleInvalidConfig_def duplicate_message_def supported_ids_def
        get_prop_def check_credentials_def Let_def)
  from construction_reports_duplicates [OF e] me he
       construction_reports_duplicates [OF s] ms e w s ww
  show ?thesis by (simp add: duplicate_message_def)
qed


section \<open>The scope parameter of the authorize redirect\<close>

lemma auth_oauth_scope:
  assumes "getProviderId (Some raw) providers = Some providerId"
    and "get_prop (oauthProviders p) providerId = Some providerConfig"
  shows "location_param ''scope'' (fst (auth_oauth p w raw io))
           = Some (configured_scope providerConfig)"
proof -
  from assms(1) have "has_key providerId providers"
    by (auto simp: getProviderId_def split: if_splits)
  then obtain d where "map_of providers providerId = Some d"
    by (auto simp: has_key_def providers_def)
  with assms show ?thesis
    by (simp add: auth_oauth_def location_param_def Let_def)
qed

text \<open>
  Claim C3, evaluated on the handler. The instance of the repository's test
  ``merges provider default scopes with configured scopes'' (GitHub configured with
  \<^verbatim>\<open>scopes: ["repo"]\<close>) redirects with \<^verbatim>\<open>scope=repo\<close>, where the claim asks for
  \<^verbatim>\<open>read:user user:email repo\<close>; with no configured scopes the parameter is empty,
  where the claim asks for the defaults alone. The handler never reads
  \<^verbatim>\<open>defaultScopes\<close>.
\<close>

theorem auth_scope_omits_defaults:
  "fst (new_Padlock (config sample_padlock)) = Inr sample_padlock
   \<and> location_param ''scope'' (fst (auth sample_padlock sample_world github_get empty_io))
       = Some ''repo''
   \<and> merged_scope github repo_config = ''read:user user:email repo''
   \<and> location_param ''scope'' (fst (auth bare_padlock sample_world github_get empty_io))
       = Some []
   \<and> merged_scope github bare_config = ''read:user user:email''"
proof -
  have g: "getProviderId (Some ''github'') providers = Some ''github''"
    by (simp add: getProviderId_def has_key_def providers_def)
  have a: "auth q sample_world github_get empty_io = auth_oauth q sample_world ''github'' empty_io"
    if "oauthProviders q = [(''github'', c)]" for q c
    using that by (simp add: auth_def github_get_def truthy_def has_key_def)
  have 1: "fst (new_Padlock (config sample_padlock)) = Inr sample_padlock"
    by (simp add: new_Padlock_def sample_padlock_def validateConfiguration_def mode_of_def
      supported_ids_def get_prop_def check_credentials_def repo_config_def Let_def)
  have 2: "location_param ''scope'' (fst (auth sample_padlock sample_world github_get empty_io))
       = Some ''repo''"
  proof -
    have o: "oauthProviders sample_padlock = [(''github'', Some repo_config)]"
      by (simp add: sample_padlock_def)
    have gp: "get_prop (oauthProviders sample_padlock) ''github'' = Some repo_config"
      by (simp add: o get_prop_def)
    have cs: "configured_scope repo_config = ''repo''"
      by (simp add: configured_scope_def repo_config_def)
    show ?thesis
      unfolding a [OF o] using auth_oauth_scope [OF g gp] cs by simp
  qed
  have 3: "merged_scope github repo_config = ''read:user user:email repo''"
    by (simp add: merged_scope_def github_def repo_config_def)
  have 4: "location_param ''scope'' (fst (auth bare_padlock sample_world github_get empty_io))
       = Some []"
  proof -
    have o: "oauthProviders bare_padlock = [(''github'', Some bare_config)]"
      by (simp add: bare_padlock_def)
    have gp: "get_prop (oauthProviders bare_padlock) ''github'' = Some bare_config"
      by (simp add: o get_prop_def)
    have cs: "configured_scope bare_config = []"
      by (simp add: configured_scope_def bare_config_def repo_config_def)
    show ?thesis
      unfolding a [OF o] using auth_oauth_scope [OF g gp] cs by simp
  qed
  have 5: "merged_scope github bare_config = ''read:user user:email''"
    by (simp add: merged_scope_def github_def bare_config_def repo_config_def)
  show ?thesis using 1 2 3 4 5 by (intro conjI)
qed

section \<open>The trusted-provider path of the auth handler\<close>

lemma get_prop_has_key:
  assumes "get_prop obj k = Some v"
  shows "has_key k obj"
proof -
  from assms have "map_of obj k = Some (Some v)"
    by (simp add: get_prop_def split: option.splits)
  then have "(k, Some v) \<in> set obj" by (rule map_of_SomeD)
  then have "fst (k, Some v) \<in> fst ` set obj" by (rule imageI)
  then show ?thesis by (simp add: has_key_def)
qed

lemma auth_trusted_path:
  assumes "provider_param req = Some raw" and "raw \<noteq> []"
    and "\<not> has_key raw (oauthProviders p)" and "has_key raw (trustedProviders p)"
  shows "auth p w req io = auth_trusted p w raw req io"
  using assms by (simp add: auth_def truthy_def)

text \<open>
  Claim C10. On the trusted-provider path of the auth handler (a POST that passed the
  CSRF guard and names a trusted provider), a \<^verbatim>\<open>null\<close> result of
  \<^verbatim>\<open>authenticate\<close> becomes the 401 failure, while an exception thrown by
  \<^verbatim>\<open>authenticate\<close> leaves the handler unchanged. In both cases the only call made is
  the one to \<^verbatim>\<open>authenticate\<close>: the error hook is not invoked. The callback handler,
  by contrast, passes every failure of its body to a configured error hook.
\<close>

theorem trusted_authenticate_outcomes:
  assumes "provider_param req = Some raw" and "raw \<noteq> []"
    and "\<not> has_key raw (oauthProviders p)"
    and "get_prop (trustedProviders p) raw = Some tp"
    and "http_method req = ''POST''"
    and "enforceCsrf w req (baseUrl (config p)) = None"
  shows "(authenticate tp (body_args (body req)) = Inr None \<longrightarrow>
            auth p w req io =
              (Inl (HttpError 401 ''authentication failed''),
               io\<lparr>trace := trace io @ [Authenticate raw (body_args (body req))]\<rparr>))
       \<and> (\<forall>e. authenticate tp (body_args (body req)) = Inl e \<longrightarrow>
            auth p w req io =
              (Inl e, io\<lparr>trace := trace io @ [Authenticate raw (body_args (body req))]\<rparr>))
       \<and> (\<forall>hook err creq. onError (config p) = Some hook
              \<and> fst (callback_try p w creq io) = Inl err \<longrightarrow>
            trace (snd (callback p w creq io))
              = trace (snd (callback_try p w creq io)) @ [OnError err])"
proof (intro conjI allI impI)
  have path: "auth p w req io = auth_trusted p w raw req io"
    using assms(1-4) by (simp add: auth_trusted_path get_prop_has_key)
  {
    assume "authenticate tp (body_args (body req)) = Inr None"
    then show "auth p w req io =
              (Inl (HttpError 401 ''authentication failed''),
               io\<lparr>trace := trace io @ [Authenticate raw (body_args (body req))]\<rparr>)"
      using assms(4-6) by (simp add: path auth_trusted_def body_args_def emit_def Let_def)
  }
  {
    fix e assume "authenticate tp (body_args (body req)) = Inl e"
    then show "auth p w req io =
              (Inl e, io\<lparr>trace := trace io @ [Authenticate raw (body_args (body req))]\<rparr>)"
      using assms(4-6) by (simp add: path auth_trusted_def body_args_def emit_def Let_def)
  }
  {
    fix hook err creq
    assume "onError (config p) = Some hook \<and> fst (callback_try p w creq io) = Inl err"
    then show "trace (snd (callback p w creq io))
              = trace (snd (callback_try p w creq io)) @ [OnError err]"
      by (cases "callback_try p w creq io")
         (simp add: callback_def callback_catch_def emit_def Let_def split: option.splits)
  }
qed

theorem trusted_authenticate_outcomes_witness:
  "auth trusted_padlock sample_world (internal_post None None (BodyArgs [])) empty_io
     = (Inl (HttpError 401 ''authentication failed''),
        empty_io\<lparr>trace := trace empty_io @ [Authenticate ''internal'' []]\<rparr>)
   \<and> auth trusted_padlock sample_world (internal_post None None (BodyArgs [''x''])) empty_io
     = (Inl (JsError ''invalid credentials''),
        empty_io\<lparr>trace := trace empty_io @ [Authenticate ''internal'' [''x'']]\<rparr>)"
proof -
  let ?r1 = "internal_post None None (BodyArgs [])"
  let ?r2 = "internal_post None None (BodyArgs [''x''])"
  have a: "authenticate internal_provider (body_args (body ?r1)) = Inr None"
    and b: "authenticate internal_provider (body_args (body ?r2))
              = Inl (JsError ''invalid credentials'')"
    by (simp_all add: internal_provider_def internal_post_def body_args_def)
  have g: "get_prop (trustedProviders trusted_padlock) ''internal'' = Some internal_provider"
    by (simp add: trusted_padlock_def get_prop_def)
  have k: "\<not> has_key ''internal'' (oauthProviders trusted_padlock)"
    by (simp add: trusted_padlock_def has_key_def)
  have c: "enforceCsrf sample_world (internal_post None None b)
             (baseUrl (config trusted_padlock)) = None" for b
    by (simp add: enforceCsrf_def internal_post_def truthy_def)
  have pp: "provider_param (internal_post None None b) = Some ''internal''"
    and m: "http_method (internal_post None None b) = ''POST''" for b
    by (simp_all add: internal_post_def)
  have n: "''internal'' \<noteq> []" by simp
  have ba: "body_args (body ?r1) = []" and bb: "body_args (body ?r2) = [''x'']"
    by (simp_all add: internal_post_def body_args_def)
  note T1 = trusted_authenticate_outcomes [OF pp n k g m c, of "BodyArgs []" empty_io]
  note T2 = trusted_authenticate_outcomes [OF pp n k g m c, of "BodyArgs [''x'']" empty_io]
  from T1 [THEN conjunct1, THEN mp, OF a] have 1: "auth trusted_padlock sample_world ?r1 empty_io
     = (Inl (HttpError 401 ''authentication failed''),
        empty_io\<lparr>trace := trace empty_io @ [Authenticate ''internal'' (body_args (body ?r1))]\<rparr>)" .
  from T2 [THEN conjunct2, THEN conjunct1, THEN spec, THEN mp, OF b] have 2: "auth trusted_padlock sample_world ?r2 empty_io
     = (Inl (JsError ''invalid credentials''),
        empty_io\<lparr>trace := trace empty_io @ [Authenticate ''internal'' (body_args (body ?r2))]\<rparr>)" .
  from 1 2 show ?thesis unfolding ba bb by (rule conjI)
qed


lemma respondWithUser_trace: "trace (snd (respondWithUser p w u io)) = trace io"
  by (simp add: respondWithUser_def cookies_set_def split: option.splits sum.splits)

lemma post_authentication_trace:
  "\<exists>es. trace (snd (post_authentication p w u io)) = trace io @ es"
  by (simp add: post_authentication_def respondWithUser_trace emit_def
      split: option.splits sum.splits)

lemma auth_trusted_calls_authenticate:
  assumes "http_method req = ''POST''"
    and "enforceCsrf w req (baseUrl (config p)) = None"
    and "get_prop (trustedProviders p) raw = Some tp"
  shows "Authenticate raw (body_args (body req)) \<in> set (trace (snd (auth_trusted p w raw req io)))"
proof (cases "authenticate tp (body_args (body req))")
  case (Inl e)
  with assms show ?thesis
    by (simp add: auth_trusted_def body_args_def emit_def Let_def)
next
  case (Inr r)
  show ?thesis
  proof (cases r)
    case None
    with Inr assms show ?thesis
      by (simp add: auth_trusted_def body_args_def emit_def Let_def)
  next
    case (Some user)
    obtain es where "trace (snd (post_authentication p w user
        (emit (Authenticate raw (body_args (body req))) io)))
        = trace (emit (Authenticate raw (body_args (body req))) io) @ es"
      using post_authentication_trace by blast
    with Some Inr assms show ?thesis
      by (simp add: auth_trusted_def body_args_def emit_def Let_def)
  qed
qed

text \<open>
  Claim C5. On a POST naming a trusted provider, an \<^verbatim>\<open>Origin\<close> header that is
  present (the source tests \<^verbatim>\<open>origin &&\<close>, so present means a non-empty value) and
  not same-origin with the base URL fails with 403, and so does such a
  \<^verbatim>\<open>Referer\<close> header; the state is returned unchanged, so \<^verbatim>\<open>authenticate\<close> is not
  invoked. With neither header present the guard rejects nothing and the handler goes
  on to call \<^verbatim>\<open>authenticate\<close>.
\<close>

theorem csrf_guard_on_trusted_post:
  assumes "provider_param req = Some raw" and "raw \<noteq> []"
    and "\<not> has_key raw (oauthProviders p)"
    and "get_prop (trustedProviders p) raw = Some tp"
    and "http_method req = ''POST''"
  shows "(\<forall>v. origin_header req = Some v \<and> v \<noteq> []
              \<and> \<not> isSameOrigin w v (baseUrl (config p)) \<longrightarrow>
            auth p w req io = (Inl (HttpError 403 ''invalid origin''), io))
       \<and> (\<forall>v. referer_header req = Some v \<and> v \<noteq> []
              \<and> \<not> isSameOrigin w v (baseUrl (config p)) \<longrightarrow>
            (\<exists>m. auth p w req io = (Inl (HttpError 403 m), io)))
       \<and> (\<not> truthy (origin_header req) \<and> \<not> truthy (referer_header req) \<longrightarrow>
            enforceCsrf w req (baseUrl (config p)) = None
            \<and> Authenticate raw (body_args (body req)) \<in> set (trace (snd (auth p w req io))))"
proof (intro conjI allI impI)
  have path: "auth p w req io = auth_trusted p w raw req io"
    using assms(1-4) by (simp add: auth_trusted_path get_prop_has_key)
  {
    fix v
    assume "origin_header req = Some v \<and> v \<noteq> [] \<and> \<not> isSameOrigin w v (baseUrl (config p))"
    then have "enforceCsrf w req (baseUrl (config p)) = Some (HttpError 403 ''invalid origin'')"
      by (simp add: enforceCsrf_def truthy_def)
    then show "auth p w req io = (Inl (HttpError 403 ''invalid origin''), io)"
      using assms(5) by (simp add: path auth_trusted_def)
  }
  {
    fix v
    assume "referer_header req = Some v \<and> v \<noteq> [] \<and> \<not> isSameOrigin w v (baseUrl (config p))"
    then have "\<exists>m. enforceCsrf w req (baseUrl (config p)) = Some (HttpError 403 m)"
      by (simp add: enforceCsrf_def truthy_def)
    then show "\<exists>m. auth p w req io = (Inl (HttpError 403 m), io)"
      using assms(5) by (auto simp: path auth_trusted_def)
  }
  {
    assume none: "\<not> truthy (origin_header req) \<and> \<not> truthy (referer_header req)"
    then show g: "enforceCsrf w req (baseUrl (config p)) = None"
      by (simp add: enforceCsrf_def)
    show "Authenticate raw (body_args (body req)) \<in> set (trace (snd (auth p w req io)))"
      unfolding path using assms(5) g assms(4) by (rule auth_trusted_calls_authenticate)
  }
qed

theorem csrf_guard_on_trusted_post_witness:
  "auth trusted_padlock sample_world
     (internal_post (Some ''https://evil.example'') None (BodyArgs [''a@example.com'', ''pw'']))
     empty_io
     = (Inl (HttpError 403 ''invalid origin''), empty_io)
   \<and> Authenticate ''internal'' [''a@example.com'', ''pw'']
       \<in> set (trace (snd (auth trusted_padlock sample_world
            (internal_post None None (BodyArgs [''a@example.com'', ''pw''])) empty_io)))"
proof -
  let ?b = "BodyArgs [''a@example.com'', ''pw'']"
  let ?evil = "internal_post (Some ''https://evil.example'') None ?b"
  let ?plain = "internal_post None None ?b"
  have g: "get_prop (trustedProviders trusted_padlock) ''internal'' = Some internal_provider"
    by (simp add: trusted_padlock_def get_prop_def)
  have k: "\<not> has_key ''internal'' (oauthProviders trusted_padlock)"
    by (simp add: trusted_padlock_def has_key_def)
  have pp: "provider_param (internal_post a b c) = Some ''internal''"
    and m: "http_method (internal_post a b c) = ''POST''" for a b c
    by (simp_all add: internal_post_def)
  have n: "''internal'' \<noteq> []" by simp
  have o: "origin_header ?evil = Some ''https://evil.example'' \<and> ''https://evil.example'' \<noteq> []
      \<and> \<not> isSameOrigin sample_world ''https://evil.example'' (baseUrl (config trusted_padlock))"
    by (simp add: internal_post_def isSameOrigin_def sample_world_def trusted_padlock_def)
  have h: "\<not> truthy (origin_header ?plain) \<and> \<not> truthy (referer_header ?plain)"
    by (simp add: internal_post_def truthy_def)
  have ba: "body_args (body ?plain) = [''a@example.com'', ''pw'']"
    by (simp add: internal_post_def body_args_def)
  note T1 = csrf_guard_on_trusted_post [OF pp n k g m,
      of "Some ''https://evil.example''" None ?b sample_world empty_io]
  note T2 = csrf_guard_on_trusted_post [OF pp n k g m, of None None ?b sample_world empty_io]
  have 1: "auth trusted_padlock sample_world ?evil empty_io
     = (Inl (HttpError 403 ''invalid origin''), empty_io)"
    using T1 [THEN conjunct1, THEN spec, THEN mp, OF o] .
  have 2: "Authenticate ''internal'' (body_args (body ?plain))
       \<in> set (trace (snd (auth trusted_padlock sample_world ?plain empty_io)))"
    using T2 [THEN conjunct2, THEN conjunct2, THEN mp, OF h, THEN conjunct2] .
  from 1 2 show ?thesis unfolding ba by (rule conjI)
qed


section \<open>State validation in the callback handler\<close>

lemma callback_try_unmatched:
  assumes "\<not> state_matches w req io"
  shows "\<exists>e. callback_try p w req io = (Inl e, io)"
proof (cases "truthy (error_param req)")
  case True
  then show ?thesis by (simp add: callback_try_def)
next
  case noerr: False
  show ?thesis
  proof (cases "truthy (code_param req) \<and> truthy (state_param req)")
    case False
    with noerr show ?thesis by (auto simp: callback_try_def)
  next
    case True
    then obtain s where s: "state_param req = Some s"
      by (auto simp: truthy_def split: option.splits)
    show ?thesis
    proof (cases "JSON_parse_state w s")
      case (Inl e)
      with noerr True s show ?thesis by (simp add: callback_try_def)
    next
      case (Inr parsed)
      show ?thesis
      proof (cases "getProviderId (ps_provider parsed) providers")
        case None
        with noerr True s Inr show ?thesis by (simp add: callback_try_def)
      next
        case (Some pid)
        then have pid: "ps_provider parsed = Some pid"
          by (auto simp: getProviderId_def split: option.splits if_splits)
        show ?thesis
        proof (cases "get_prop (oauthProviders p) pid")
          case None
          with noerr True s Inr Some show ?thesis by (simp add: callback_try_def)
        next
          case pc: (Some providerConfig)
          from assms s Inr pid
          have "ps_state parsed = None
                \<or> ps_state parsed \<noteq> cookies io (''oauth_state_'' @ pid)"
            by (auto simp: state_matches_def split: option.splits)
          then have "\<not> truthy (cookies io (''oauth_state_'' @ pid))
                \<or> ps_state parsed \<noteq> cookies io (''oauth_state_'' @ pid)"
            by (auto simp: truthy_def split: option.splits)
          with noerr True s Inr Some pc show ?thesis
            by (simp add: callback_try_def Let_def)
        qed
      qed
    qed
  qed
qed

lemma callback_try_resolved:
  assumes "\<not> truthy (error_param req)"
    and "truthy (code_param req)" and "truthy (state_param req)"
    and "JSON_parse_state w (the (state_param req)) = Inr parsed"
    and "getProviderId (ps_provider parsed) providers = Some pid"
    and "get_prop (oauthProviders p) pid = Some providerConfig"
  shows "callback_try p w req io =
     (if \<not> truthy (cookies io (''oauth_state_'' @ pid))
          \<or> ps_state parsed \<noteq> cookies io (''oauth_state_'' @ pid)
      then (Inl (HttpError 400 ''invalid state''), io)
      else if \<not> truthy (cookies io (''pkce_'' @ pid))
      then (Inl (HttpError 400 ''missing pkce''), io)
      else callback_exchange p w pid providerConfig (the (code_param req))
             (the (cookies io (''pkce_'' @ pid)))
             (cookies_delete (''oauth_state_'' @ pid) (cookies_delete (''pkce_'' @ pid) io)))"
  using assms by (simp add: callback_try_def Let_def)

lemma callback_catch_result:
  "\<exists>e'. fst (callback_catch p e io) = Inl e'"
  by (simp add: callback_catch_def Let_def split: option.splits)

lemma callback_catch_cookies: "cookies (snd (callback_catch p e io)) = cookies io"
  by (simp add: callback_catch_def emit_def Let_def split: option.splits)

lemma callback_catch_exchange_calls:
  "exchange_calls (snd (callback_catch p e io)) = exchange_calls io"
  by (simp add: callback_catch_def emit_def exchange_calls_def Let_def split: option.splits)

lemma callback_catch_quiet:
  assumes "onError (config p) = None \<or> (\<exists>hook. onError (config p) = Some hook \<and> hook e = None)"
    and "carries_status e"
  shows "fst (callback_catch p e io) = Inl e"
  using assms by (auto simp: callback_catch_def Let_def)

text \<open>
  Claim C1, as amended. When the token embedded in the \<^verbatim>\<open>state\<close> parameter does
  not equal the \<^verbatim>\<open>oauth_state_<providerId>\<close> cookie (the cookie is missing, the
  parameter is missing or malformed, or the two differ), the callback handler fails
  and makes no call to \<^verbatim>\<open>exchangeCode\<close>. The failure is the state-validation
  failure, 400 ``invalid state'', when the request reaches the comparison: no
  \<^verbatim>\<open>error\<close> parameter, a code, and a state that parses and names a supported,
  configured provider (and the error hook, if any, returns normally). When
  \<^verbatim>\<open>JSON.parse\<close> throws on the \<^verbatim>\<open>state\<close> parameter, the failure is the generic
  500 ``auth error''.
\<close>

theorem state_mismatch_never_exchanges:
  assumes "\<not> state_matches w req io"
  shows "(\<exists>e. fst (callback p w req io) = Inl e)
       \<and> exchange_calls (snd (callback p w req io)) = exchange_calls io
       \<and> (\<forall>parsed pid providerConfig.
            \<not> truthy (error_param req)
            \<and> truthy (code_param req) \<and> truthy (state_param req)
            \<and> JSON_parse_state w (the (state_param req)) = Inr parsed
            \<and> getProviderId (ps_provider parsed) providers = Some pid
            \<and> get_prop (oauthProviders p) pid = Some providerConfig
            \<longrightarrow> callback_try p w req io = (Inl (HttpError 400 ''invalid state''), io)
              \<and> ((onError (config p) = None
                   \<or> (\<exists>hook. onError (config p) = Some hook
                        \<and> hook (HttpError 400 ''invalid state'') = None))
                  \<longrightarrow> fst (callback p w req io) = Inl (HttpError 400 ''invalid state'')))
       \<and> (\<forall>m. \<not> truthy (error_param req)
            \<and> truthy (code_param req) \<and> truthy (state_param req)
            \<and> JSON_parse_state w (the (state_param req)) = Inl (JsError m)
            \<and> (onError (config p) = None
                 \<or> (\<exists>hook. onError (config p) = Some hook \<and> hook (JsError m) = None))
            \<longrightarrow> fst (callback p w req io) = Inl (HttpError 500 ''auth error''))"
proof -
  from assms obtain e where e: "callback_try p w req io = (Inl e, io)"
    using callback_try_unmatched by blast
  then have c: "callback p w req io = callback_catch p e io"
    by (simp add: callback_def)
  have 1: "\<exists>e. fst (callback p w req io) = Inl e"
    unfolding c by (rule callback_catch_result)
  have 2: "exchange_calls (snd (callback p w req io)) = exchange_calls io"
    unfolding c by (rule callback_catch_exchange_calls)
  have 3: "callback_try p w req io = (Inl (HttpError 400 ''invalid state''), io)
       \<and> ((onError (config p) = None
            \<or> (\<exists>hook. onError (config p) = Some hook
                 \<and> hook (HttpError 400 ''invalid state'') = None))
           \<longrightarrow> fst (callback p w req io) = Inl (HttpError 400 ''invalid state''))"
    if h: "\<not> truthy (error_param req)
            \<and> truthy (code_param req) \<and> truthy (state_param req)
            \<and> JSON_parse_state w (the (state_param req)) = Inr parsed
            \<and> getProviderId (ps_provider parsed) providers = Some pid
            \<and> get_prop (oauthProviders p) pid = Some providerConfig"
    for parsed pid providerConfig
  proof -
    from h have r: "callback_try p w req io =
     (if \<not> truthy (cookies io (''oauth_state_'' @ pid))
          \<or> ps_state parsed \<noteq> cookies io (''oauth_state_'' @ pid)
      then (Inl (HttpError 400 ''invalid state''), io)
      else if \<not> truthy (cookies io (''pkce_'' @ pid))
      then (Inl (HttpError 400 ''missing pkce''), io)
      else callback_exchange p w pid providerConfig (the (code_param req))
             (the (cookies io (''pkce_'' @ pid)))
             (cookies_delete (''oauth_state_'' @ pid) (cookies_delete (''pkce_'' @ pid) io)))"
      by (intro callback_try_resolved) simp_all
    from h obtain s where s: "state_param req = Some s"
      by (auto simp: truthy_def split: option.splits)
    from h have pid: "ps_provider parsed = Some pid"
      by (auto simp: getProviderId_def split: option.splits if_splits)
    from assms s h pid
    have "ps_state parsed = None \<or> ps_state parsed \<noteq> cookies io (''oauth_state_'' @ pid)"
      by (auto simp: state_matches_def split: option.splits)
    then have "\<not> truthy (cookies io (''oauth_state_'' @ pid))
                \<or> ps_state parsed \<noteq> cookies io (''oauth_state_'' @ pid)"
      by (auto simp: truthy_def split: option.splits)
    with r have t: "callback_try p w req io = (Inl (HttpError 400 ''invalid state''), io)"
      by simp
    then have "callback p w req io = callback_catch p (HttpError 400 ''invalid state'') io"
      by (simp add: callback_def)
    with t show ?thesis by (simp add: callback_catch_quiet)
  qed
  have 4: "fst (callback p w req io) = Inl (HttpError 500 ''auth error'')"
    if h: "\<not> truthy (error_param req)
            \<and> truthy (code_param req) \<and> truthy (state_param req)
            \<and> JSON_parse_state w (the (state_param req)) = Inl (JsError m)
            \<and> (onError (config p) = None
                 \<or> (\<exists>hook. onError (config p) = Some hook \<and> hook (JsError m) = None))"
    for m
  proof -
    from h have "callback_try p w req io = (Inl (JsError m), io)"
      by (simp add: callback_try_def)
    then have "callback p w req io = callback_catch p (JsError m) io"
      by (simp add: callback_def)
    with h show ?thesis by (auto simp: callback_catch_def Let_def)
  qed
  from 1 2 3 4 show ?thesis by blast
qed

theorem state_mismatch_never_exchanges_witness:
  "\<not> state_matches sample_world (callback_request forged_state) pending_io
   \<and> fst (callback sample_padlock sample_world (callback_request forged_state) pending_io)
       = Inl (HttpError 400 ''invalid state'')
   \<and> exchange_calls
        (snd (callback sample_padlock sample_world (callback_request forged_state) pending_io))
       = []"
proof -
  let ?req = "callback_request forged_state"
  have parse: "JSON_parse_state sample_world forged_state
      = Inr \<lparr> ps_provider = Some ''github'', ps_state = Some ''forged'' \<rparr>"
    by (simp add: sample_world_def forged_state_def)
  have sp: "state_param ?req = Some forged_state"
    by (simp add: callback_request_def)
  have ck: "cookies pending_io (''oauth_state_'' @ ''github'') = Some ''state-1''"
    by (simp add: pending_io_def)
  have n: "\<not> state_matches sample_world ?req pending_io"
    using ck by (simp add: state_matches_def sp parse)
  have h: "\<not> truthy (error_param ?req)
            \<and> truthy (code_param ?req) \<and> truthy (state_param ?req)
            \<and> JSON_parse_state sample_world (the (state_param ?req))
                = Inr \<lparr> ps_provider = Some ''github'', ps_state = Some ''forged'' \<rparr>
            \<and> getProviderId (ps_provider \<lparr> ps_provider = Some ''github'',
                  ps_state = Some ''forged'' \<rparr>) providers = Some ''github''
            \<and> get_prop (oauthProviders sample_padlock) ''github'' = Some repo_config"
    using parse
    by (simp add: callback_request_def truthy_def getProviderId_def has_key_def providers_def
        get_prop_def sample_padlock_def forged_state_def)
  have q: "onError (config sample_padlock) = None
      \<or> (\<exists>hook. onError (config sample_padlock) = Some hook
            \<and> hook (HttpError 400 ''invalid state'') = None)"
    by (simp add: sample_padlock_def)
  note T = state_mismatch_never_exchanges [OF n, of sample_padlock]
  have 1: "fst (callback sample_padlock sample_world ?req pending_io)
       = Inl (HttpError 400 ''invalid state'')"
    using T [THEN conjunct2, THEN conjunct2, THEN conjunct1, THEN spec, THEN spec, THEN spec,
             THEN mp, OF h, THEN conjunct2, THEN mp, OF q] .
  have 2: "exchange_calls (snd (callback sample_padlock sample_world ?req pending_io))
       = exchange_calls pending_io"
    using T [THEN conjunct2, THEN conjunct1] .
  have 3: "exchange_calls pending_io = []"
    by (simp add: exchange_calls_def pending_io_def)
  from n 1 2 3 show ?thesis by simp
qed

text \<open>
  Claim C1 as stated (a malformed \<^verbatim>\<open>state\<close> parameter fails with a
  state-validation failure) does not hold: \<^verbatim>\<open>JSON.parse\<close> throws inside the
  \<^verbatim>\<open>try\<close> block, the exception carries no status, and the handler answers with
  the generic 500 ``auth error''.
\<close>

theorem malformed_state_counterexample:
  "\<not> state_matches sample_world (callback_request ''not json'') pending_io
   \<and> fst (callback sample_padlock sample_world (callback_request ''not json'') pending_io)
       = Inl (HttpError 500 ''auth error'')
   \<and> HttpError 500 ''auth error'' \<noteq> HttpError 400 ''invalid state''"
  by (simp add: state_matches_def callback_request_def sample_world_def callback_def
      callback_try_def truthy_def callback_catch_def sample_padlock_def)

section \<open>The ephemeral cookies after the callback handler\<close>

lemma respondWithUser_cookies:
  assumes "\<forall>j. jwt (config p) = Some j \<longrightarrow> session_cookie_name j \<noteq> n"
  shows "cookies (snd (respondWithUser p w u io)) n = cookies io n"
  using assms
  by (auto simp: respondWithUser_def cookies_set_def split: option.splits sum.splits)

lemma post_authentication_cookies:
  assumes "\<forall>j. jwt (config p) = Some j \<longrightarrow> session_cookie_name j \<noteq> n"
  shows "cookies (snd (post_authentication p w u io)) n = cookies io n"
  using assms
  by (simp add: post_authentication_def respondWithUser_cookies emit_def
      split: option.splits sum.splits)

lemma callback_exchange_cookies:
  assumes "\<forall>j. jwt (config p) = Some j \<longrightarrow> session_cookie_name j \<noteq> n"
  shows "cookies (snd (callback_exchange p w pid pc code v io)) n = cookies io n"
  using assms
  by (simp add: callback_exchange_def post_authentication_cookies emit_def Let_def
      split: option.splits sum.splits)

lemma callback_cookies:
  "cookies (snd (callback p w req io)) = cookies (snd (callback_try p w req io))"
  by (cases "callback_try p w req io")
     (simp add: callback_def callback_catch_cookies split: sum.splits)

text \<open>
  Claim C2, as amended. Let a callback request reach the cookies: no \<^verbatim>\<open>error\<close>
  parameter, a code, and a state that parses and names a supported, configured
  provider. If the state cookie matches and the PKCE cookie is present, both cookies
  of that provider are absent after the handler, whatever the exchange, the user
  fetch, the hooks and the signing do (the session cookie must not bear one of the two
  names). If validation fails (state mismatch, missing state cookie or missing
  PKCE cookie), the handler fails and leaves the cookie jar as it was.
\<close>

theorem callback_deletes_cookies_after_validation:
  assumes "\<not> truthy (error_param req)"
    and "truthy (code_param req)" and "truthy (state_param req)"
    and "JSON_parse_state w (the (state_param req)) = Inr parsed"
    and "getProviderId (ps_provider parsed) providers = Some pid"
    and "get_prop (oauthProviders p) pid = Some providerConfig"
  shows "(truthy (cookies io (''oauth_state_'' @ pid))
          \<and> ps_state parsed = cookies io (''oauth_state_'' @ pid)
          \<and> truthy (cookies io (''pkce_'' @ pid))
          \<and> (\<forall>j. jwt (config p) = Some j \<longrightarrow>
                session_cookie_name j \<noteq> ''pkce_'' @ pid
                \<and> session_cookie_name j \<noteq> ''oauth_state_'' @ pid)
          \<longrightarrow> cookies (snd (callback p w req io)) (''pkce_'' @ pid) = None
            \<and> cookies (snd (callback p w req io)) (''oauth_state_'' @ pid) = None)
       \<and> (\<not> (truthy (cookies io (''oauth_state_'' @ pid))
              \<and> ps_state parsed = cookies io (''oauth_state_'' @ pid)
              \<and> truthy (cookies io (''pkce_'' @ pid)))
          \<longrightarrow> (\<exists>e. fst (callback p w req io) = Inl e)
            \<and> cookies (snd (callback p w req io)) = cookies io)"
proof (intro conjI impI)
  note r = callback_try_resolved [OF assms, of io]
  {
    assume ok: "truthy (cookies io (''oauth_state_'' @ pid))
          \<and> ps_state parsed = cookies io (''oauth_state_'' @ pid)
          \<and> truthy (cookies io (''pkce_'' @ pid))
          \<and> (\<forall>j. jwt (config p) = Some j \<longrightarrow>
                session_cookie_name j \<noteq> ''pkce_'' @ pid
                \<and> session_cookie_name j \<noteq> ''oauth_state_'' @ pid)"
    let ?io = "cookies_delete (''oauth_state_'' @ pid) (cookies_delete (''pkce_'' @ pid) io)"
    from ok r have t: "callback_try p w req io =
        callback_exchange p w pid providerConfig (the (code_param req))
          (the (cookies io (''pkce_'' @ pid))) ?io"
      by simp
    from ok have a: "\<forall>j. jwt (config p) = Some j \<longrightarrow> session_cookie_name j \<noteq> ''pkce_'' @ pid"
      and b: "\<forall>j. jwt (config p) = Some j \<longrightarrow> session_cookie_name j \<noteq> ''oauth_state_'' @ pid"
      by blast+
    have da: "cookies ?io (''pkce_'' @ pid) = None"
      and db: "cookies ?io (''oauth_state_'' @ pid) = None"
      by (simp_all add: cookies_delete_def)
    show "cookies (snd (callback p w req io)) (''pkce_'' @ pid) = None"
      unfolding callback_cookies t callback_exchange_cookies [OF a] by (rule da)
    show "cookies (snd (callback p w req io)) (''oauth_state_'' @ pid) = None"
      unfolding callback_cookies t callback_exchange_cookies [OF b] by (rule db)
  }
  {
    assume bad: "\<not> (truthy (cookies io (''oauth_state_'' @ pid))
              \<and> ps_state parsed = cookies io (''oauth_state_'' @ pid)
              \<and> truthy (cookies io (''pkce_'' @ pid)))"
    with r have "\<exists>e. callback_try p w req io = (Inl e, io)"
      by auto
    then obtain e where e: "callback_try p w req io = (Inl e, io)" by blast
    then have c: "callback p w req io = callback_catch p e io"
      by (simp add: callback_def)
    show "\<exists>e. fst (callback p w req io) = Inl e"
      unfolding c by (rule callback_catch_result)
    show "cookies (snd (callback p w req io)) = cookies io"
      unfolding c by (rule callback_catch_cookies)
  }
qed

theorem callback_deletes_cookies_after_validation_witness:
  "cookies (snd (callback session_padlock sample_world (callback_request sample_state) pending_io))
     (''pkce_'' @ ''github'') = None
   \<and> cookies (snd (callback session_padlock sample_world (callback_request sample_state) pending_io))
     (''oauth_state_'' @ ''github'') = None
   \<and> cookies (snd (callback session_padlock sample_world (callback_request forged_state) pending_io))
     = cookies pending_io"
proof -
  let ?good = "callback_request sample_state"
  let ?bad = "callback_request forged_state"
  let ?parsed = "\<lparr> ps_provider = Some ''github'', ps_state = Some ''state-1'' \<rparr>"
  let ?forged = "\<lparr> ps_provider = Some ''github'', ps_state = Some ''forged'' \<rparr>"
  have e: "\<not> truthy (error_param (callback_request s))" for s
    by (simp add: callback_request_def truthy_def)
  have c: "truthy (code_param (callback_request s))" for s
    by (simp add: callback_request_def truthy_def)
  have s1: "truthy (state_param ?good)" and s2: "truthy (state_param ?bad)"
    by (simp_all add: callback_request_def truthy_def sample_state_def forged_state_def)
  have p1: "JSON_parse_state sample_world (the (state_param ?good)) = Inr ?parsed"
    by (simp add: callback_request_def sample_world_def sample_state_def)
  have p2: "JSON_parse_state sample_world (the (state_param ?bad)) = Inr ?forged"
    by (simp add: callback_request_def sample_world_def forged_state_def)
  have g1: "getProviderId (ps_provider ?parsed) providers = Some ''github''"
    and g2: "getProviderId (ps_provider ?forged) providers = Some ''github''"
    by (simp_all add: getProviderId_def has_key_def providers_def)
  have pc: "get_prop (oauthProviders session_padlock) ''github'' = Some repo_config"
    by (simp add: session_padlock_def sample_padlock_def get_prop_def)
  have ok: "truthy (cookies pending_io (''oauth_state_'' @ ''github''))
          \<and> ps_state ?parsed = cookies pending_io (''oauth_state_'' @ ''github'')
          \<and> truthy (cookies pending_io (''pkce_'' @ ''github''))
          \<and> (\<forall>j. jwt (config session_padlock) = Some j \<longrightarrow>
                session_cookie_name j \<noteq> ''pkce_'' @ ''github''
                \<and> session_cookie_name j \<noteq> ''oauth_state_'' @ ''github'')"
    by (simp add: pending_io_def truthy_def session_padlock_def sample_padlock_def
        session_cookie_name_def)
  have bad: "\<not> (truthy (cookies pending_io (''oauth_state_'' @ ''github''))
              \<and> ps_state ?forged = cookies pending_io (''oauth_state_'' @ ''github'')
              \<and> truthy (cookies pending_io (''pkce_'' @ ''github'')))"
    by (simp add: pending_io_def)
  note T1 = callback_deletes_cookies_after_validation [OF e c s1 p1 g1 pc, of pending_io]
  note T2 = callback_deletes_cookies_after_validation [OF e c s2 p2 g2 pc, of pending_io]
  from T1 [THEN conjunct1, THEN mp, OF ok] T2 [THEN conjunct2, THEN mp, OF bad, THEN conjunct2]
  show ?thesis by blast
qed

text \<open>
  Claim C2 as stated (the cookies are deleted whether validation succeeds or fails)
  does not hold: a callback whose state token differs from the cookie reads the state
  cookie, fails with 400 ``invalid state'', and leaves both cookies in the jar.
\<close>

theorem failed_validation_keeps_cookies_counterexample:
  "fst (callback sample_padlock sample_world (callback_request forged_state) pending_io)
     = Inl (HttpError 400 ''invalid state'')
   \<and> cookies (snd (callback sample_padlock sample_world (callback_request forged_state)
        pending_io)) ''pkce_github'' = Some ''verifier-1''
   \<and> cookies (snd (callback sample_padlock sample_world (callback_request forged_state)
        pending_io)) ''oauth_state_github'' = Some ''state-1''"
proof -
  have t: "callback_try sample_padlock sample_world (callback_request forged_state) pending_io
      = (Inl (HttpError 400 ''invalid state''), pending_io)"
    by (simp add: callback_try_def callback_request_def truthy_def forged_state_def
        sample_world_def getProviderId_def has_key_def providers_def get_prop_def
        sample_padlock_def pending_io_def)
  have "callback sample_padlock sample_world (callback_request forged_state) pending_io
      = callback_catch sample_padlock (HttpError 400 ''invalid state'') pending_io"
    by (simp add: callback_def t)
  also have "\<dots> = (Inl (HttpError 400 ''invalid state''), pending_io)"
    by (simp add: callback_catch_def sample_padlock_def)
  finally show ?thesis by (simp add: pending_io_def)
qed


section \<open>The Microsoft tenant policy\<close>

lemma getTenant_single: "allowedTenants cfg = Some [t] \<Longrightarrow> getTenant cfg = Some t"
  by (simp add: getTenant_def)

lemma getTenant_other:
  assumes "allowedTenants cfg = None \<or> (\<exists>ts. allowedTenants cfg = Some ts \<and> length ts \<noteq> 1)"
  shows "getTenant cfg = None"
  using assms by (auto simp: getTenant_def split: list.splits)

lemma microsoft_exchangeCode_checked:
  assumes "post_token net (getTokenUrl (ex_providerConfig params)) (microsoft_token_form params)
             = Inr accessToken"
    and "allowedTenants (ex_providerConfig params) = Some tenants"
    and "filter (\<lambda>t. t \<noteq> []) tenants \<noteq> []"
  shows "microsoft_exchangeCode net params =
     (if tenant_allowed (tenant_claim net accessToken) tenants
      then Inr accessToken else Inl (JsError ''tenant not allowed''))"
  using assms
  by (auto simp: microsoft_exchangeCode_def resolve_url_def microsoft_def Let_def
      tenant_allowed_def tenant_claim_def truthy_def split: option.splits)

lemma microsoft_exchangeCode_unchecked:
  assumes "post_token net (getTokenUrl (ex_providerConfig params)) (microsoft_token_form params)
             = Inr accessToken"
    and "allowedTenants (ex_providerConfig params) = None
         \<or> (\<exists>tenants. allowedTenants (ex_providerConfig params) = Some tenants
              \<and> filter (\<lambda>t. t \<noteq> []) tenants = [])"
  shows "microsoft_exchangeCode net params = Inr accessToken"
  using assms
  by (auto simp: microsoft_exchangeCode_def resolve_url_def microsoft_def Let_def)

text \<open>
  The descriptor's side of the Microsoft tenant policy. With exactly one entry in
  \<^verbatim>\<open>allowedTenants\<close> the functions \<^verbatim>\<open>getAuthorizeUrl\<close> and \<^verbatim>\<open>getTokenUrl\<close>
  return URLs with that entry as the tenant segment; with no list, an empty list or two
  or more entries both return the \<^verbatim>\<open>common\<close> endpoints. When the allow-list has
  an entry that is not the empty string (\<^verbatim>\<open>filter(Boolean)\<close> drops empty entries)
  and the token endpoint answered, \<^verbatim>\<open>exchangeCode\<close> posts to the resolved token
  URL, decodes the \<^verbatim>\<open>tid\<close> claim of the issued access token and throws ``tenant
  not allowed'' exactly when the claim is absent (or empty) or not in the list;
  otherwise it returns the access token. Without such an entry no check is made.
\<close>

lemma microsoft_descriptor_policy:
  "(\<forall>t. allowedTenants cfg = Some [t] \<longrightarrow>
      resolve_url (authorizeUrl microsoft) cfg = tenant_url t ''authorize''
      \<and> resolve_url (tokenUrl microsoft) cfg = tenant_url t ''token'')
   \<and> (allowedTenants cfg = None \<or> (\<exists>ts. allowedTenants cfg = Some ts \<and> length ts \<noteq> 1) \<longrightarrow>
      resolve_url (authorizeUrl microsoft) cfg = tenant_url ''common'' ''authorize''
      \<and> resolve_url (tokenUrl microsoft) cfg = tenant_url ''common'' ''token'')
   \<and> (\<forall>params net accessToken tenants.
        ex_providerConfig params = cfg
        \<and> post_token net (resolve_url (tokenUrl microsoft) cfg) (microsoft_token_form params)
            = Inr accessToken
        \<and> allowedTenants cfg = Some tenants \<and> filter (\<lambda>t. t \<noteq> []) tenants \<noteq> [] \<longrightarrow>
        (microsoft_exchangeCode net params = Inl (JsError ''tenant not allowed''))
          = (case tenant_claim net accessToken of
               None \<Rightarrow> True
             | Some t \<Rightarrow> t = [] \<or> t \<notin> set tenants)
        \<and> (tenant_allowed (tenant_claim net accessToken) tenants \<longrightarrow>
             microsoft_exchangeCode net params = Inr accessToken))
   \<and> (\<forall>params net accessToken.
        ex_providerConfig params = cfg
        \<and> post_token net (resolve_url (tokenUrl microsoft) cfg) (microsoft_token_form params)
            = Inr accessToken
        \<and> (allowedTenants cfg = None
             \<or> (\<exists>tenants. allowedTenants cfg = Some tenants
                  \<and> filter (\<lambda>t. t \<noteq> []) tenants = [])) \<longrightarrow>
        microsoft_exchangeCode net params = Inr accessToken)"
proof (intro conjI allI impI)
  have u: "resolve_url (authorizeUrl microsoft) cfg = getAuthorizeUrl cfg"
    "resolve_url (tokenUrl microsoft) cfg = getTokenUrl cfg"
    by (simp_all add: resolve_url_def microsoft_def)
  {
    fix t assume "allowedTenants cfg = Some [t]"
    then have "getTenant cfg = Some t" by (rule getTenant_single)
    then show "resolve_url (authorizeUrl microsoft) cfg = tenant_url t ''authorize''"
      and "resolve_url (tokenUrl microsoft) cfg = tenant_url t ''token''"
      by (simp_all add: u getAuthorizeUrl_def getTokenUrl_def tenant_url_def)
  }
  {
    assume "allowedTenants cfg = None \<or> (\<exists>ts. allowedTenants cfg = Some ts \<and> length ts \<noteq> 1)"
    then have "getTenant cfg = None" by (rule getTenant_other)
    then show "resolve_url (authorizeUrl microsoft) cfg = tenant_url ''common'' ''authorize''"
      and "resolve_url (tokenUrl microsoft) cfg = tenant_url ''common'' ''token''"
      by (simp_all add: u getAuthorizeUrl_def getTokenUrl_def tenant_url_def)
  }
  {
    fix params :: ExchangeParams and net :: Net
      and accessToken :: "string option" and tenants :: "string list"
    assume h: "ex_providerConfig params = cfg
        \<and> post_token net (resolve_url (tokenUrl microsoft) cfg) (microsoft_token_form params)
            = Inr accessToken
        \<and> allowedTenants cfg = Some tenants \<and> filter (\<lambda>t. t \<noteq> []) tenants \<noteq> []"
    then have r: "microsoft_exchangeCode net params =
       (if tenant_allowed (tenant_claim net accessToken) tenants
        then Inr accessToken else Inl (JsError ''tenant not allowed''))"
      by (intro microsoft_exchangeCode_checked) (simp_all add: u)
    show "(microsoft_exchangeCode net params = Inl (JsError ''tenant not allowed''))
          = (case tenant_claim net accessToken of
               None \<Rightarrow> True
             | Some t \<Rightarrow> t = [] \<or> t \<notin> set tenants)"
      by (simp add: r tenant_allowed_def split: option.splits)
    show "microsoft_exchangeCode net params = Inr accessToken"
      if "tenant_allowed (tenant_claim net accessToken) tenants"
      using that by (simp add: r)
  }
  {
    fix params :: ExchangeParams and net :: Net and accessToken :: "string option"
    assume "ex_providerConfig params = cfg
        \<and> post_token net (resolve_url (tokenUrl microsoft) cfg) (microsoft_token_form params)
            = Inr accessToken
        \<and> (allowedTenants cfg = None
             \<or> (\<exists>tenants. allowedTenants cfg = Some tenants
                  \<and> filter (\<lambda>t. t \<noteq> []) tenants = []))"
    then show "microsoft_exchangeCode net params = Inr accessToken"
      by (intro microsoft_exchangeCode_unchecked) (simp_all add: u)
  }
qed

lemma microsoft_descriptor_policy_sample:
  "resolve_url (authorizeUrl microsoft) (tenant_config (Some [''tenant-b'']))
     = ''https://login.microsoftonline.com/tenant-b/oauth2/v2.0/authorize''
   \<and> resolve_url (tokenUrl microsoft) (tenant_config (Some [''tenant-a'', ''tenant-b'']))
     = ''https://login.microsoftonline.com/common/oauth2/v2.0/token''
   \<and> microsoft_exchangeCode sample_net (tenant_params (Some [''tenant-b'']))
     = Inl (JsError ''tenant not allowed'')
   \<and> microsoft_exchangeCode sample_net (tenant_params (Some [''tenant-a'', ''tenant-b'']))
     = Inr (Some ''header.PAYLOAD-A.'')"
proof -
  let ?one = "tenant_config (Some [''tenant-b''])"
  let ?two = "tenant_config (Some [''tenant-a'', ''tenant-b''])"
  have a1: "allowedTenants ?one = Some [''tenant-b'']"
    by (simp add: tenant_config_def)
  have a2: "allowedTenants ?two = None
      \<or> (\<exists>ts. allowedTenants ?two = Some ts \<and> length ts \<noteq> 1)"
    by (simp add: tenant_config_def)
  have claim: "tenant_claim sample_net (Some ''header.PAYLOAD-A.'') = Some ''tenant-a''"
    by (simp add: tenant_claim_def getJwtTenantId_def sample_net_def Let_def)
  have h1: "ex_providerConfig (tenant_params (Some [''tenant-b''])) = ?one
        \<and> post_token sample_net (resolve_url (tokenUrl microsoft) ?one)
            (microsoft_token_form (tenant_params (Some [''tenant-b''])))
            = Inr (Some ''header.PAYLOAD-A.'')
        \<and> allowedTenants ?one = Some [''tenant-b'']
        \<and> filter (\<lambda>t. t \<noteq> []) [''tenant-b''] \<noteq> []"
    by (simp add: tenant_params_def tenant_config_def sample_net_def)
  have h2: "ex_providerConfig (tenant_params (Some [''tenant-a'', ''tenant-b''])) = ?two
        \<and> post_token sample_net (resolve_url (tokenUrl microsoft) ?two)
            (microsoft_token_form (tenant_params (Some [''tenant-a'', ''tenant-b''])))
            = Inr (Some ''header.PAYLOAD-A.'')
        \<and> allowedTenants ?two = Some [''tenant-a'', ''tenant-b'']
        \<and> filter (\<lambda>t. t \<noteq> []) [''tenant-a'', ''tenant-b''] \<noteq> []"
    by (simp add: tenant_params_def tenant_config_def sample_net_def)
  have ok: "tenant_allowed (tenant_claim sample_net (Some ''header.PAYLOAD-A.''))
      [''tenant-a'', ''tenant-b'']"
    by (simp add: claim tenant_allowed_def)
  have 1: "resolve_url (authorizeUrl microsoft) ?one = tenant_url ''tenant-b'' ''authorize''"
    using microsoft_descriptor_policy [of ?one, THEN conjunct1, THEN spec, THEN mp, OF a1,
        THEN conjunct1] .
  have 2: "resolve_url (tokenUrl microsoft) ?two = tenant_url ''common'' ''token''"
    using microsoft_descriptor_policy [of ?two, THEN conjunct2, THEN conjunct1, THEN mp, OF a2,
        THEN conjunct2] .
  have 3: "(microsoft_exchangeCode sample_net (tenant_params (Some [''tenant-b'']))
        = Inl (JsError ''tenant not allowed''))
      = (case tenant_claim sample_net (Some ''header.PAYLOAD-A.'') of
           None \<Rightarrow> True
         | Some t \<Rightarrow> t = [] \<or> t \<notin> set [''tenant-b''])"
    using microsoft_descriptor_policy [of ?one, THEN conjunct2, THEN conjunct2, THEN conjunct1,
        THEN spec, THEN spec, THEN spec, THEN spec, THEN mp, OF h1, THEN conjunct1] .
  have 4: "microsoft_exchangeCode sample_net (tenant_params (Some [''tenant-a'', ''tenant-b'']))
      = Inr (Some ''header.PAYLOAD-A.'')"
    using microsoft_descriptor_policy [of ?two, THEN conjunct2, THEN conjunct2, THEN conjunct1,
        THEN spec, THEN spec, THEN spec, THEN spec, THEN mp, OF h2, THEN conjunct2, THEN mp,
        OF ok] .
  from 1 2 3 4 show ?thesis by (simp add: claim tenant_url_def)
qed


lemma auth_microsoft_redirect:
  assumes "oauthProviders p = [(''microsoft'', Some providerConfig)]"
  shows "location_url (fst (auth p w microsoft_get io)) = Some (UrlFunction getAuthorizeUrl)"
  using assms
  by (simp add: auth_def microsoft_get_def truthy_def has_key_def auth_oauth_def
      getProviderId_def providers_def get_prop_def microsoft_def location_url_def Let_def)

text \<open>
  Claim C4, evaluated on the handler. The token URL and the tenant check of
  \<^verbatim>\<open>exchangeCode\<close> follow the policy (see above), but the authorize URL of the
  redirect does not: \<^verbatim>\<open>Padlock.auth\<close> interpolates \<^verbatim>\<open>provider.authorizeUrl\<close>
  without calling it. At the input of the repository's test ``uses tenant-specific
  Microsoft authorize URL when one tenant is provided'' the \<^verbatim>\<open>Location\<close> carries
  the function \<^verbatim>\<open>getAuthorizeUrl\<close> itself, not the tenant-scoped URL that the
  function returns for this configuration; with two tenants it is not the
  \<^verbatim>\<open>common\<close> URL either.
\<close>

theorem auth_redirect_ignores_tenant_url:
  "fst (new_Padlock (config tenant_padlock)) = Inr tenant_padlock
   \<and> location_url (fst (auth tenant_padlock sample_world microsoft_get empty_io))
       = Some (UrlFunction getAuthorizeUrl)
   \<and> getAuthorizeUrl (tenant_config (Some [single_tenant]))
       = ''https://login.microsoftonline.com/00000000-0000-0000-0000-000000000000/oauth2/v2.0/authorize''
   \<and> location_url (fst (auth tenant_padlock sample_world microsoft_get empty_io))
       \<noteq> Some (UrlString
            ''https://login.microsoftonline.com/00000000-0000-0000-0000-000000000000/oauth2/v2.0/authorize'')
   \<and> location_url (fst (auth
          (tenant_padlock\<lparr>oauthProviders :=
             [(''microsoft'', Some (tenant_config (Some [''tenant-a'', ''tenant-b''])))]\<rparr>)
          sample_world microsoft_get empty_io))
       \<noteq> Some (UrlString ''https://login.microsoftonline.com/common/oauth2/v2.0/authorize'')"
proof -
  have 1: "fst (new_Padlock (config tenant_padlock)) = Inr tenant_padlock"
    by (simp add: new_Padlock_def tenant_padlock_def validateConfiguration_def mode_of_def
      supported_ids_def get_prop_def check_credentials_def tenant_config_def Let_def)
  have o: "oauthProviders tenant_padlock
      = [(''microsoft'', Some (tenant_config (Some [single_tenant])))]"
    by (simp add: tenant_padlock_def)
  have 2: "location_url (fst (auth tenant_padlock sample_world microsoft_get empty_io))
       = Some (UrlFunction getAuthorizeUrl)"
    using o by (rule auth_microsoft_redirect)
  have 3: "getAuthorizeUrl (tenant_config (Some [single_tenant]))
       = ''https://login.microsoftonline.com/00000000-0000-0000-0000-000000000000/oauth2/v2.0/authorize''"
    by (simp add: getAuthorizeUrl_def getTenant_def tenant_config_def single_tenant_def)
  have 4: "location_url (fst (auth tenant_padlock sample_world microsoft_get empty_io))
       \<noteq> Some (UrlString
            ''https://login.microsoftonline.com/00000000-0000-0000-0000-000000000000/oauth2/v2.0/authorize'')"
    unfolding 2 by simp
  have o2: "oauthProviders (tenant_padlock\<lparr>oauthProviders :=
             [(''microsoft'', Some (tenant_config (Some [''tenant-a'', ''tenant-b''])))]\<rparr>)
      = [(''microsoft'', Some (tenant_config (Some [''tenant-a'', ''tenant-b''])))]"
    by simp
  have 5: "location_url (fst (auth
          (tenant_padlock\<lparr>oauthProviders :=
             [(''microsoft'', Some (tenant_config (Some [''tenant-a'', ''tenant-b''])))]\<rparr>)
          sample_world microsoft_get empty_io))
       \<noteq> Some (UrlString ''https://login.microsoftonline.com/common/oauth2/v2.0/authorize'')"
    unfolding auth_microsoft_redirect [OF o2] by simp
  show ?thesis using 1 2 3 4 5 by (intro conjI)
qed

section \<open>GitHub e-mail resolution\<close>

lemma find_primary_verified_None:
  "find is_primary emails = None \<Longrightarrow> find is_primary_verified emails = None"
  by (induction emails)
     (auto simp: is_primary_def is_primary_verified_def split: option.splits if_splits)

lemma select_email_primary_verified:
  assumes "find is_primary_verified emails = Some e" and "email_of e = Some m"
  shows "select_email emails = Some m"
  using assms by (simp add: select_email_def orelse_def found_email_def Let_def)

lemma select_email_primary:
  assumes "find is_primary_verified emails = None"
    and "find is_primary emails = Some e" and "email_of e = Some m"
  shows "select_email emails = Some m"
  using assms by (simp add: select_email_def orelse_def found_email_def Let_def)

lemma select_email_first:
  assumes "find is_primary (e # es) = None"
  shows "select_email (e # es) = email_of e"
proof -
  from assms have "find is_primary_verified (e # es) = None"
    by (rule find_primary_verified_None)
  with assms show ?thesis
    by (simp add: select_email_def orelse_def found_email_def Let_def del: find.simps)
qed

lemma lookup_email_array:
  assumes "get_emails net accessToken =
             Inr \<lparr> res_ok = True, res_json = Inr (EmailsArray emails) \<rparr>"
  shows "lookup_email net accessToken None = select_email emails"
  using assms
  by (cases emails) (simp_all add: lookup_email_def select_email_def orelse_def
      found_email_def Let_def)

lemma lookup_email_failed:
  assumes "(\<exists>e. get_emails net accessToken = Inl e)
       \<or> (\<exists>r. get_emails net accessToken = Inr r
             \<and> (\<not> res_ok r \<or> (\<exists>e. res_json r = Inl e) \<or> res_json r = Inr NotAnArray
                 \<or> res_json r = Inr (EmailsArray [])))"
  shows "lookup_email net accessToken None = None"
  using assms by (auto simp: lookup_email_def)

text \<open>
  Claim C8. When the primary user-info response has no e-mail, \<^verbatim>\<open>fetchUser\<close>
  requests the e-mail list and returns a user; it never fails because of the second
  request. From a list answered with an ok status the e-mail is that of the first
  entry marked primary and verified, else that of the first entry marked primary,
  else that of the first entry, else \<^verbatim>\<open>null\<close> (each step of the chain is
  \<^verbatim>\<open>??\<close>, so an entry without an e-mail passes to the next step). When the
  lookup throws, answers with a non-ok status, or its body is unreadable, not an array
  or empty, the e-mail is \<^verbatim>\<open>null\<close>.
\<close>

theorem github_email_resolution:
  assumes "get_user net accessToken = Inr gh" and "gh_email gh = None"
  shows "snd (github_fetchUser net accessToken)
           = [''https://api.github.com/user'', ''https://api.github.com/user/emails'']
       \<and> (\<exists>u. fst (github_fetchUser net accessToken) = Inr u
              \<and> email u = lookup_email net accessToken None)
       \<and> (\<forall>emails. get_emails net accessToken
                = Inr \<lparr> res_ok = True, res_json = Inr (EmailsArray emails) \<rparr> \<longrightarrow>
            lookup_email net accessToken None = select_email emails
            \<and> (\<forall>e m. find is_primary_verified emails = Some e \<and> email_of e = Some m
                  \<longrightarrow> lookup_email net accessToken None = Some m)
            \<and> (\<forall>e m. find is_primary_verified emails = None
                  \<and> find is_primary emails = Some e \<and> email_of e = Some m
                  \<longrightarrow> lookup_email net accessToken None = Some m)
            \<and> (\<forall>e es. find is_primary emails = None \<and> emails = e # es
                  \<longrightarrow> lookup_email net accessToken None = email_of e)
            \<and> (emails = [] \<longrightarrow> lookup_email net accessToken None = None))
       \<and> ((\<exists>e. get_emails net accessToken = Inl e)
            \<or> (\<exists>r. get_emails net accessToken = Inr r
                  \<and> (\<not> res_ok r \<or> (\<exists>e. res_json r = Inl e) \<or> res_json r = Inr NotAnArray))
          \<longrightarrow> lookup_email net accessToken None = None)"
proof (intro conjI allI impI)
  show "snd (github_fetchUser net accessToken)
           = [''https://api.github.com/user'', ''https://api.github.com/user/emails'']"
    using assms by (simp add: github_fetchUser_def truthy_def Let_def)
  show "\<exists>u. fst (github_fetchUser net accessToken) = Inr u
              \<and> email u = lookup_email net accessToken None"
    using assms by (simp add: github_fetchUser_def truthy_def Let_def)
next
  fix emails
  assume a: "get_emails net accessToken
                = Inr \<lparr> res_ok = True, res_json = Inr (EmailsArray emails) \<rparr>"
  then show s: "lookup_email net accessToken None = select_email emails"
    by (rule lookup_email_array)
  {
    fix e m
    assume "find is_primary_verified emails = Some e \<and> email_of e = Some m"
    then show "lookup_email net accessToken None = Some m"
      by (simp add: s select_email_primary_verified)
  }
  {
    fix e m
    assume "find is_primary_verified emails = None
                  \<and> find is_primary emails = Some e \<and> email_of e = Some m"
    then show "lookup_email net accessToken None = Some m"
      by (simp add: s select_email_primary)
  }
  {
    fix e es
    assume "find is_primary emails = None \<and> emails = e # es"
    then have "find is_primary (e # es) = None" and "emails = e # es" by blast+
    then show "lookup_email net accessToken None = email_of e"
      using select_email_first [of e es] by (simp only: s)
  }
  {
    assume "emails = []"
    with a show "lookup_email net accessToken None = None"
      by (simp add: lookup_email_def)
  }
next
  assume "(\<exists>e. get_emails net accessToken = Inl e)
            \<or> (\<exists>r. get_emails net accessToken = Inr r
                  \<and> (\<not> res_ok r \<or> (\<exists>e. res_json r = Inl e) \<or> res_json r = Inr NotAnArray))"
  then show "lookup_email net accessToken None = None"
    by (intro lookup_email_failed) blast
qed

theorem github_email_resolution_witness:
  "(\<exists>u. fst (github_fetchUser
             (github_net (Inr \<lparr> res_ok = True, res_json = Inr (EmailsArray octo_emails) \<rparr>))
             ''token'') = Inr u
        \<and> email u = Some ''b@example.com'')
   \<and> (\<exists>u. fst (github_fetchUser (github_net (Inl (JsError ''network down''))) ''token'') = Inr u
        \<and> email u = None)"
proof -
  let ?ok = "github_net (Inr \<lparr> res_ok = True, res_json = Inr (EmailsArray octo_emails) \<rparr>)"
  let ?down = "github_net (Inl (JsError ''network down''))"
  have u: "get_user (github_net r) ''token'' = Inr octo" for r
    by (simp add: github_net_def)
  have n: "gh_email octo = None" by (simp add: octo_def)
  have e1: "get_emails ?ok ''token''
      = Inr \<lparr> res_ok = True, res_json = Inr (EmailsArray octo_emails) \<rparr>"
    by (simp add: github_net_def)
  have e2: "(\<exists>e. get_emails ?down ''token'' = Inl e)
            \<or> (\<exists>r. get_emails ?down ''token'' = Inr r
                  \<and> (\<not> res_ok r \<or> (\<exists>e. res_json r = Inl e) \<or> res_json r = Inr NotAnArray))"
    by (simp add: github_net_def)
  have f: "find is_primary_verified octo_emails = Some (entry ''b@example.com'' True True)
      \<and> email_of (entry ''b@example.com'' True True) = Some ''b@example.com''"
    by (simp add: octo_emails_def entry_def is_primary_verified_def email_of_def)
  note T1 = github_email_resolution [OF u n, of "Inr \<lparr> res_ok = True,
      res_json = Inr (EmailsArray octo_emails) \<rparr>"]
  note T2 = github_email_resolution [OF u n, of "Inl (JsError ''network down'')"]
  have 1: "lookup_email ?ok ''token'' None = Some ''b@example.com''"
    using T1 [THEN conjunct2, THEN conjunct2, THEN conjunct1, THEN spec, THEN mp, OF e1,
        THEN conjunct2, THEN conjunct1, THEN spec, THEN spec, THEN mp, OF f] .
  have 2: "lookup_email ?down ''token'' None = None"
    using T2 [THEN conjunct2, THEN conjunct2, THEN conjunct2, THEN mp, OF e2] .
  from T1 [THEN conjunct2, THEN conjunct1] T2 [THEN conjunct2, THEN conjunct1] 1 2
  show ?thesis by simp
qed


section \<open>The authorization check\<close>

lemma extractToken_bearer: "extractToken (Some (''Bearer '' @ t)) jar n = Some t"
  by (simp add: extractToken_def startsWith_def)

lemma extractToken_cookie:
  assumes "authorization = None \<or> (\<exists>a. authorization = Some a \<and> \<not> startsWith a ''Bearer '')"
  shows "extractToken authorization jar n = jar n"
  using assms by (auto simp: extractToken_def)

lemma authorize_no_token:
  assumes "jwt (config p) = Some j"
    and "\<not> truthy (extractToken authorization jar (session_cookie_name j))"
  shows "authorize p w authorization jar True = Inl (HttpError 401 ''invalid or missing token'')"
    and "authorize p w authorization jar False = Inr None"
  using assms by (simp_all add: authorize_def Let_def)

lemma authorize_rejected:
  assumes "jwt (config p) = Some j"
    and "truthy (extractToken authorization jar (session_cookie_name j))"
    and "jwt_verify w (the (extractToken authorization jar (session_cookie_name j))) (secret j)
           = None"
  shows "authorize p w authorization jar True = Inl (HttpError 401 ''invalid token'')"
    and "authorize p w authorization jar False = Inr None"
  using assms by (simp_all add: authorize_def Let_def)

lemma authorize_verified:
  assumes "jwt (config p) = Some j"
    and "truthy (extractToken authorization jar (session_cookie_name j))"
    and "jwt_verify w (the (extractToken authorization jar (session_cookie_name j))) (secret j)
           = Some payload"
  shows "authorize p w authorization jar required = Inr (Some payload)"
  using assms by (simp add: authorize_def Let_def)

lemma respondWithUser_session_cookie:
  assumes "jwt (config p) = Some j"
    and "signJwt w (session_payload user) (secret j) (expiresInSeconds j) = Inr token"
  shows "cookies (snd (respondWithUser p w user io)) (session_cookie_name j) = Some token"
  using assms by (simp add: respondWithUser_def cookies_set_def)

text \<open>
  Claim C6. \<^verbatim>\<open>authorize\<close> fails with the configuration error when no \<^verbatim>\<open>jwt\<close>
  configuration exists. Otherwise the candidate token is what follows
  \<^verbatim>\<open>Bearer \<close> in the \<^verbatim>\<open>Authorization\<close> header, and the session cookie only when
  there is no such header; the session cookie is the one named by
  \<^verbatim>\<open>jwt.cookie.name\<close>, and \<^verbatim>\<open>padlock_token\<close> when no name is configured. With
  no token, or a token that \<^verbatim>\<open>jwt.verify\<close> rejects
  (invalid or expired), it fails with 401 when \<^verbatim>\<open>required\<close> is true and returns
  \<^verbatim>\<open>null\<close> when it is false; with a token that verifies it returns the decoded
  payload. For the token that \<^verbatim>\<open>respondWithUser\<close> signed and stored in the session
  cookie, verified while valid, the payload's \<^verbatim>\<open>sub\<close> is
  \<^verbatim>\<open><provider>:<providerAccountId>\<close>.
\<close>

theorem authorize_outcomes:
  "(jwt (config p) = None \<longrightarrow>
      authorize p w authorization jar required
        = Inl (HttpError 500 ''jwt configuration is missing''))
   \<and> (\<forall>t n. extractToken (Some (''Bearer '' @ t)) jar n = Some t)
   \<and> (\<forall>n. authorization = None
           \<or> (\<exists>a. authorization = Some a \<and> \<not> startsWith a ''Bearer '')
         \<longrightarrow> extractToken authorization jar n = jar n)
   \<and> (\<forall>j. jwt (config p) = Some j
         \<and> \<not> truthy (extractToken authorization jar (session_cookie_name j)) \<longrightarrow>
        authorize p w authorization jar True = Inl (HttpError 401 ''invalid or missing token'')
        \<and> authorize p w authorization jar False = Inr None)
   \<and> (\<forall>j. jwt (config p) = Some j
         \<and> truthy (extractToken authorization jar (session_cookie_name j))
         \<and> jwt_verify w (the (extractToken authorization jar (session_cookie_name j)))
              (secret j) = None \<longrightarrow>
        authorize p w authorization jar True = Inl (HttpError 401 ''invalid token'')
        \<and> authorize p w authorization jar False = Inr None)
   \<and> (\<forall>j payload. jwt (config p) = Some j
         \<and> truthy (extractToken authorization jar (session_cookie_name j))
         \<and> jwt_verify w (the (extractToken authorization jar (session_cookie_name j)))
              (secret j) = Some payload \<longrightarrow>
        authorize p w authorization jar required = Inr (Some payload))
   \<and> (\<forall>j user token io. jwt (config p) = Some j
         \<and> signJwt w (session_payload user) (secret j) (expiresInSeconds j) = Inr token
         \<and> token \<noteq> []
         \<and> jwt_verify w token (secret j) = Some (session_payload user) \<longrightarrow>
        (\<exists>payload.
           authorize p w None (cookies (snd (respondWithUser p w user io))) required
             = Inr (Some payload)
           \<and> sub payload = provider user @ '':'' @ providerAccountId user))
   \<and> (\<forall>j c n. jwt (config p) = Some j \<and> cookie j = Some c \<and> cookie_name c = Some n \<longrightarrow>
        session_cookie_name j = n
        \<and> (\<forall>t payload. jar n = Some t \<and> t \<noteq> [] \<and> jwt_verify w t (secret j) = Some payload
              \<longrightarrow> authorize p w None jar required = Inr (Some payload))
        \<and> (jar n = None \<longrightarrow>
              authorize p w None jar True = Inl (HttpError 401 ''invalid or missing token'')
              \<and> authorize p w None jar False = Inr None))
   \<and> (\<forall>j. jwt (config p) = Some j
         \<and> (cookie j = None \<or> (\<exists>c. cookie j = Some c \<and> cookie_name c = None)) \<longrightarrow>
        session_cookie_name j = ''padlock_token'')"
proof (intro conjI allI impI)
  show "authorize p w authorization jar required
        = Inl (HttpError 500 ''jwt configuration is missing'')" if "jwt (config p) = None"
    using that by (simp add: authorize_def)
  show "extractToken (Some (''Bearer '' @ t)) jar n = Some t" for t n
    by (rule extractToken_bearer)
  show "extractToken authorization jar n = jar n"
    if "authorization = None \<or> (\<exists>a. authorization = Some a \<and> \<not> startsWith a ''Bearer '')"
    for n
    using that by (rule extractToken_cookie)
next
  fix j
  assume h: "jwt (config p) = Some j
         \<and> \<not> truthy (extractToken authorization jar (session_cookie_name j))"
  then show "authorize p w authorization jar True
      = Inl (HttpError 401 ''invalid or missing token'')"
    by (intro authorize_no_token(1) [of p j]) simp_all
  from h show "authorize p w authorization jar False = Inr None"
    by (intro authorize_no_token(2) [of p j]) simp_all
next
  fix j
  assume h: "jwt (config p) = Some j
         \<and> truthy (extractToken authorization jar (session_cookie_name j))
         \<and> jwt_verify w (the (extractToken authorization jar (session_cookie_name j)))
              (secret j) = None"
  then show "authorize p w authorization jar True = Inl (HttpError 401 ''invalid token'')"
    by (intro authorize_rejected(1) [of p j]) simp_all
  from h show "authorize p w authorization jar False = Inr None"
    by (intro authorize_rejected(2) [of p j]) simp_all
next
  fix j payload
  assume "jwt (config p) = Some j
         \<and> truthy (extractToken authorization jar (session_cookie_name j))
         \<and> jwt_verify w (the (extractToken authorization jar (session_cookie_name j)))
              (secret j) = Some payload"
  then show "authorize p w authorization jar required = Inr (Some payload)"
    by (intro authorize_verified [of p j]) simp_all
next
  fix j user token io
  assume h: "jwt (config p) = Some j
         \<and> signJwt w (session_payload user) (secret j) (expiresInSeconds j) = Inr token
         \<and> token \<noteq> []
         \<and> jwt_verify w token (secret j) = Some (session_payload user)"
  let ?jar = "cookies (snd (respondWithUser p w user io))"
  from h have c: "?jar (session_cookie_name j) = Some token"
    by (intro respondWithUser_session_cookie) simp_all
  have x: "extractToken None ?jar (session_cookie_name j) = Some token"
    by (simp add: extractToken_def c)
  from h have "authorize p w None ?jar required = Inr (Some (session_payload user))"
    by (intro authorize_verified [of p j]) (simp_all add: x truthy_def)
  moreover have "sub (session_payload user) = provider user @ '':'' @ providerAccountId user"
    by (simp add: session_payload_def)
  ultimately show "\<exists>payload.
           authorize p w None ?jar required = Inr (Some payload)
           \<and> sub payload = provider user @ '':'' @ providerAccountId user"
    by blast
next
  fix j c n
  assume h: "jwt (config p) = Some j \<and> cookie j = Some c \<and> cookie_name c = Some n"
  then show nm: "session_cookie_name j = n"
    by (simp add: session_cookie_name_def)
  have x: "extractToken None jar (session_cookie_name j) = jar n"
    by (simp add: extractToken_def nm)
  {
    fix t payload
    assume "jar n = Some t \<and> t \<noteq> [] \<and> jwt_verify w t (secret j) = Some payload"
    with h show "authorize p w None jar required = Inr (Some payload)"
      by (intro authorize_verified [of p j]) (simp_all add: x truthy_def)
  }
  {
    assume "jar n = None"
    with h show "authorize p w None jar True = Inl (HttpError 401 ''invalid or missing token'')"
      by (intro authorize_no_token(1) [of p j]) (simp_all add: x truthy_def)
  }
  {
    assume "jar n = None"
    with h show "authorize p w None jar False = Inr None"
      by (intro authorize_no_token(2) [of p j]) (simp_all add: x truthy_def)
  }
next
  fix j
  assume "jwt (config p) = Some j
         \<and> (cookie j = None \<or> (\<exists>c. cookie j = Some c \<and> cookie_name c = None))"
  then show "session_cookie_name j = ''padlock_token''"
    by (auto simp: session_cookie_name_def)
qed

theorem authorize_outcomes_witness:
  "authorize sample_padlock sample_world None Map.empty True
     = Inl (HttpError 500 ''jwt configuration is missing'')
   \<and> authorize session_padlock sample_world None Map.empty True
     = Inl (HttpError 401 ''invalid or missing token'')
   \<and> authorize session_padlock sample_world None Map.empty False = Inr None
   \<and> authorize session_padlock sample_world (Some ''Bearer forged'') Map.empty True
     = Inl (HttpError 401 ''invalid token'')
   \<and> (\<exists>payload.
        authorize session_padlock sample_world None
          (cookies (snd (respondWithUser session_padlock sample_world github_user empty_io))) True
          = Inr (Some payload)
        \<and> sub payload = ''github:42'')
   \<and> session_cookie_name named_jwt = ''padlock_jwt''
   \<and> authorize named_padlock sample_world None
        [''padlock_jwt'' \<mapsto> ''jwt.github:42'', ''padlock_token'' \<mapsto> ''forged''] True
       = Inr (Some \<lparr> sub = ''github:42'', jwt_provider = ''github'',
                      jwt_providerAccountId = ''42'' \<rparr>)
   \<and> authorize named_padlock sample_world None [''padlock_token'' \<mapsto> ''jwt.github:42''] True
       = Inl (HttpError 401 ''invalid or missing token'')"
proof -
  let ?j = "\<lparr> secret = ''secret'', expiresInSeconds = None, cookie = None \<rparr>"
  have j0: "jwt (config sample_padlock) = None"
    by (simp add: sample_padlock_def)
  have j: "jwt (config session_padlock) = Some ?j"
    by (simp add: session_padlock_def sample_padlock_def)
  have a: "jwt (config session_padlock) = Some ?j
         \<and> \<not> truthy (extractToken None Map.empty (session_cookie_name ?j))"
    by (simp add: j extractToken_def truthy_def)
  have b: "jwt (config session_padlock) = Some ?j
         \<and> truthy (extractToken (Some ''Bearer forged'') Map.empty (session_cookie_name ?j))
         \<and> jwt_verify sample_world
              (the (extractToken (Some ''Bearer forged'') Map.empty (session_cookie_name ?j)))
              (secret ?j) = None"
    by (simp add: j extractToken_def startsWith_def truthy_def sample_world_def)
  have c: "jwt (config session_padlock) = Some ?j
         \<and> signJwt sample_world (session_payload github_user) (secret ?j) (expiresInSeconds ?j)
             = Inr ''jwt.github:42''
         \<and> ''jwt.github:42'' \<noteq> []
         \<and> jwt_verify sample_world ''jwt.github:42'' (secret ?j)
             = Some (session_payload github_user)"
    by (simp add: j signJwt_def sample_world_def session_payload_def github_user_def)
  have s: "provider github_user @ '':'' @ providerAccountId github_user = ''github:42''"
    by (simp add: github_user_def)
  have 1: "authorize sample_padlock sample_world None Map.empty True
     = Inl (HttpError 500 ''jwt configuration is missing'')"
    using authorize_outcomes [of sample_padlock sample_world None Map.empty True,
        THEN conjunct1, THEN mp, OF j0] .
  note T = authorize_outcomes [of session_padlock sample_world None Map.empty True]
  note N = T [THEN conjunct2, THEN conjunct2, THEN conjunct2, THEN conjunct1,
        THEN spec, THEN mp, OF a]
  note B = authorize_outcomes [of session_padlock sample_world "Some ''Bearer forged''"
        Map.empty True, THEN conjunct2, THEN conjunct2, THEN conjunct2, THEN conjunct2,
        THEN conjunct1, THEN spec, THEN mp, OF b]
  note S = T [THEN conjunct2, THEN conjunct2, THEN conjunct2, THEN conjunct2,
        THEN conjunct2, THEN conjunct2, THEN conjunct1, THEN spec, THEN spec, THEN spec,
        THEN spec, THEN mp, OF c, of empty_io]
  let ?named = "[''padlock_jwt'' \<mapsto> ''jwt.github:42'', ''padlock_token'' \<mapsto> ''forged'']"
  let ?default = "[''padlock_token'' \<mapsto> ''jwt.github:42'']"
  have nj: "jwt (config named_padlock) = Some named_jwt
      \<and> cookie named_jwt = Some \<lparr> cookie_name = Some ''padlock_jwt'' \<rparr>
      \<and> cookie_name \<lparr> cookie_name = Some ''padlock_jwt'' \<rparr> = Some ''padlock_jwt''"
    by (simp add: named_padlock_def sample_padlock_def named_jwt_def)
  have v: "?named ''padlock_jwt'' = Some ''jwt.github:42'' \<and> ''jwt.github:42'' \<noteq> []
      \<and> jwt_verify sample_world ''jwt.github:42'' (secret named_jwt)
          = Some \<lparr> sub = ''github:42'', jwt_provider = ''github'',
                      jwt_providerAccountId = ''42'' \<rparr>"
    by (simp add: sample_world_def named_jwt_def)
  have m: "?default ''padlock_jwt'' = None" by simp
  note C1 = authorize_outcomes [of named_padlock sample_world None ?named True,
        THEN conjunct2, THEN conjunct2, THEN conjunct2, THEN conjunct2,
        THEN conjunct2, THEN conjunct2, THEN conjunct2, THEN conjunct1,
        THEN spec, THEN spec, THEN spec, THEN mp, OF nj]
  note C2 = authorize_outcomes [of named_padlock sample_world None ?default True,
        THEN conjunct2, THEN conjunct2, THEN conjunct2, THEN conjunct2,
        THEN conjunct2, THEN conjunct2, THEN conjunct2, THEN conjunct1,
        THEN spec, THEN spec, THEN spec, THEN mp, OF nj]
  have 5: "session_cookie_name named_jwt = ''padlock_jwt''"
    using C1 [THEN conjunct1] .
  have 6: "authorize named_padlock sample_world None ?named True
      = Inr (Some \<lparr> sub = ''github:42'', jwt_provider = ''github'',
                      jwt_providerAccountId = ''42'' \<rparr>)"
    using C1 [THEN conjunct2, THEN conjunct1, THEN spec, THEN spec, THEN mp, OF v] .
  have 7: "authorize named_padlock sample_world None ?default True
      = Inl (HttpError 401 ''invalid or missing token'')"
    using C2 [THEN conjunct2, THEN conjunct2, THEN mp, OF m, THEN conjunct1] .
  from 1 N B S 5 6 7 show ?thesis unfolding s by blast
qed


section \<open>The session token codec\<close>

lemma spec_verify_issue:
  "spec_verify mac t1 (spec_issue mac t0 payload sec n) sec
     = (if t0 + n \<le> t1 then None else Some payload)"
  by (simp add: spec_verify_def spec_issue_def)

text \<open>
  Claim C7, on the codec modelled from the specification. A token issued by
  \<^verbatim>\<open>signJwt\<close> at time \<open>t0\<close> for a payload and a secret, and verified by
  \<^verbatim>\<open>verifyJwt\<close> with the same secret at a time \<open>t1\<close> inside the expiry window
  (3600 seconds when no expiry is given), decodes to the input payload; the expiry
  metadata is not part of the returned payload. The wire form is assumed to decode the
  issued token to itself. Once the window has passed the same token is rejected.
\<close>

theorem session_token_round_trip:
  assumes "decode (encode (spec_issue mac t0 payload sec (expiry_of expiresIn)))
             = Some (spec_issue mac t0 payload sec (expiry_of expiresIn))"
    and "t0 \<le> t1"
  shows "\<exists>token. signJwt (spec_codec mac encode decode t0 t1 w) payload sec expiresIn = Inr token
       \<and> (t1 < t0 + expiry_of expiresIn \<longrightarrow>
            verifyJwt (spec_codec mac encode decode t0 t1 w) token sec = Some payload)
       \<and> (t0 + expiry_of expiresIn \<le> t1 \<longrightarrow>
            verifyJwt (spec_codec mac encode decode t0 t1 w) token sec = None)"
proof -
  let ?t = "spec_issue mac t0 payload sec (expiry_of expiresIn)"
  have s: "signJwt (spec_codec mac encode decode t0 t1 w) payload sec expiresIn
      = Inr (encode ?t)"
    by (simp add: signJwt_def spec_codec_def expiry_of_def)
  have v: "verifyJwt (spec_codec mac encode decode t0 t1 w) (encode ?t) sec
      = (if t0 + expiry_of expiresIn \<le> t1 then None else Some payload)"
    using assms(1) by (simp add: verifyJwt_def spec_codec_def spec_verify_issue)
  from s v show ?thesis by auto
qed

theorem session_token_round_trip_witness:
  "\<exists>token. signJwt (spec_codec sample_mac sample_encode sample_decode 1000 1001 sample_world)
        (session_payload github_user) ''secret'' None = Inr token
     \<and> verifyJwt (spec_codec sample_mac sample_encode sample_decode 1000 1001 sample_world) token
        ''secret'' = Some (session_payload github_user)"
proof -
  have e: "expiry_of None = 3600" by (simp add: expiry_of_def)
  have d: "sample_decode (sample_encode (spec_issue sample_mac 1000 (session_payload github_user)
        ''secret'' (expiry_of None)))
      = Some (spec_issue sample_mac 1000 (session_payload github_user) ''secret'' (expiry_of None))"
    unfolding e
    by (simp add: sample_decode_def sample_encode_def sample_token_def spec_issue_def sample_mac_def
        session_payload_def github_user_def)
  have t: "(1000::nat) \<le> 1001" by simp
  have i: "(1001::nat) < 1000 + expiry_of None" by (simp add: e)
  from session_token_round_trip
         [where decode = sample_decode and encode = sample_encode and mac = sample_mac
            and ?t0.0 = 1000 and ?t1.0 = 1001 and payload = "session_payload github_user"
            and sec = "''secret''" and expiresIn = None and w = sample_world, OF d t] i
  show ?thesis by blast
qed

end
